theory Spec2Isabelle
  imports Complex_Main "HOL-Library.Sublist"
begin

section \<open>Characters and strings\<close>

text \<open>
  A Python \<open>str\<close> is a sequence of Unicode code points, and \<open>len\<close>, iteration, \<open>in\<close> and
  dictionary lookup of a one-character string all work on code points. A character is
  therefore modelled as its code point and a string as the list of its code points. The
  box-drawing glyphs of \<open>clock.py\<close> lie outside ASCII and are named here by their code
  points.
\<close>

type_synonym pychar = nat
type_synonym pystr = "pychar list"

definition ascii :: "string \<Rightarrow> pystr" where
  "ascii s = map of_char s"

abbreviation (input) BOX_UR :: pychar where "BOX_UR \<equiv> 9492"  \<comment> \<open>U+2514, light up and right\<close>
abbreviation (input) BOX_DR :: pychar where "BOX_DR \<equiv> 9484"  \<comment> \<open>U+250C, light down and right\<close>
abbreviation (input) BOX_DL :: pychar where "BOX_DL \<equiv> 9488"  \<comment> \<open>U+2510, light down and left\<close>
abbreviation (input) BOX_UL :: pychar where "BOX_UL \<equiv> 9496"  \<comment> \<open>U+2518, light up and left\<close>
abbreviation (input) DASH :: pychar where "DASH \<equiv> 45"         \<comment> \<open>the ASCII hyphen-minus\<close>
abbreviation (input) PIPE :: pychar where "PIPE \<equiv> 124"        \<comment> \<open>the ASCII vertical bar\<close>
abbreviation (input) SPC :: pychar where "SPC \<equiv> 32"           \<comment> \<open>the ASCII space\<close>

section \<open>Exceptions\<close>

datatype exn =
    ValueError pystr
  | AssertionError pystr
  | KeyError pychar
  | ZeroDivisionError
  | EnvironmentError pystr
  | OtherException pystr bool pystr
      \<comment> \<open>any other class: its name, whether it derives from \<open>ValueError\<close>, and \<open>str(e)\<close>\<close>

section \<open>Orientations and the glyph table\<close>

datatype ClockOrientation =
    DEG_0 | DEG_30 | DEG_60 | DEG_90 | DEG_120 | DEG_150
  | DEG_180 | DEG_210 | DEG_240 | DEG_270 | DEG_300 | DEG_330

fun orientation_value :: "ClockOrientation \<Rightarrow> int" where
  "orientation_value DEG_0 = 0"
| "orientation_value DEG_30 = 30"
| "orientation_value DEG_60 = 60"
| "orientation_value DEG_90 = 90"
| "orientation_value DEG_120 = 120"
| "orientation_value DEG_150 = 150"
| "orientation_value DEG_180 = 180"
| "orientation_value DEG_210 = 210"
| "orientation_value DEG_240 = 240"
| "orientation_value DEG_270 = 270"
| "orientation_value DEG_300 = 300"
| "orientation_value DEG_330 = 330"

type_synonym ClockOrientations = "ClockOrientation \<times> ClockOrientation"
type_synonym ClockLine = "ClockOrientations list"
type_synonym ClockSquare = "ClockLine list"

text \<open>
  \<open>ClockDirectionMap\<close> is a \<open>defaultdict\<close>: a module-level mutable dictionary. Looking up a
  missing key calls the default factory, stores the result under that key and returns it.
  The dictionary's content is the state; \<open>ClockDirectionMap\<close> below is its content when the
  module has been loaded, and \<open>getitem\<close> is \<open>ClockDirectionMap[char]\<close>, returning the value
  and the content afterwards.
\<close>

type_synonym direction_dict = "pychar \<rightharpoonup> ClockOrientations"

definition default_factory :: ClockOrientations where
  "default_factory = (DEG_150, DEG_150)"

definition ClockDirectionMap :: direction_dict where
  "ClockDirectionMap =
     [BOX_UR \<mapsto> (DEG_0, DEG_270),
      BOX_DR \<mapsto> (DEG_270, DEG_180),
      BOX_DL \<mapsto> (DEG_180, DEG_90),
      BOX_UL \<mapsto> (DEG_90, DEG_0),
      DASH \<mapsto> (DEG_90, DEG_270),
      PIPE \<mapsto> (DEG_0, DEG_180)]"

definition getitem :: "direction_dict \<Rightarrow> pychar \<Rightarrow> ClockOrientations \<times> direction_dict" where
  "getitem d char =
     (case d char of
        Some v \<Rightarrow> (v, d)
      | None \<Rightarrow> (default_factory, d(char \<mapsto> default_factory)))"

text \<open>The content of the dictionary after the characters \<open>cs\<close> have been looked up in turn.\<close>

definition after_lookups :: "pychar list \<Rightarrow> direction_dict" where
  "after_lookups cs = foldl (\<lambda>d c. snd (getitem d c)) ClockDirectionMap cs"

text \<open>
  The value a lookup yields, as a function of the character alone; \<open>dict_ok\<close> says that a
  dictionary content yields that value for every character, stored or defaulted.
\<close>

definition direction_of :: "pychar \<Rightarrow> ClockOrientations" where
  "direction_of char =
     (if char = BOX_UR then (DEG_0, DEG_270)
      else if char = BOX_DR then (DEG_270, DEG_180)
      else if char = BOX_DL then (DEG_180, DEG_90)
      else if char = BOX_UL then (DEG_90, DEG_0)
      else if char = DASH then (DEG_90, DEG_270)
      else if char = PIPE then (DEG_0, DEG_180)
      else (DEG_150, DEG_150))"

definition dict_ok :: "direction_dict \<Rightarrow> bool" where
  "dict_ok d = (\<forall>c. (case d c of Some v \<Rightarrow> v | None \<Rightarrow> default_factory) = direction_of c)"

section \<open>The digit patterns\<close>

text \<open>
  \<open>DigitRepresentation\<close> is a dictionary literal; its items are kept in the order of the
  source, which is the order in which \<open>.values()\<close> yields the patterns to the startup
  assertion. Every pattern is a tuple of six strings.
\<close>

definition DigitRepresentation_items :: "(pychar \<times> pystr list) list" where
  "DigitRepresentation_items =
   [(of_char CHR ''0'',
      [[BOX_DR, DASH, DASH, BOX_DL],
       [PIPE, BOX_DR, BOX_DL, PIPE],
       [PIPE, PIPE, PIPE, PIPE],
       [PIPE, PIPE, PIPE, PIPE],
       [PIPE, BOX_UR, BOX_UL, PIPE],
       [BOX_UR, DASH, DASH, BOX_UL]]),
    (of_char CHR ''1'',
      [[BOX_DR, DASH, BOX_DL, SPC],
       [BOX_UR, BOX_DL, PIPE, SPC],
       [SPC, PIPE, PIPE, SPC],
       [SPC, PIPE, PIPE, SPC],
       [BOX_DR, BOX_UL, BOX_UR, BOX_DL],
       [BOX_UR, DASH, DASH, BOX_UL]]),
    (of_char CHR ''2'',
      [[BOX_DR, DASH, DASH, BOX_DL],
       [BOX_UR, DASH, BOX_DL, PIPE],
       [BOX_DR, DASH, BOX_UL, PIPE],
       [PIPE, BOX_DR, DASH, BOX_UL],
       [PIPE, BOX_UR, DASH, BOX_DL],
       [BOX_UR, DASH, DASH, BOX_UL]]),
    (of_char CHR ''3'',
      [[BOX_DR, DASH, DASH, BOX_DL],
       [BOX_UR, DASH, BOX_DL, PIPE],
       [SPC, BOX_DR, BOX_UL, PIPE],
       [SPC, BOX_UR, BOX_DL, PIPE],
       [BOX_DR, DASH, BOX_UL, PIPE],
       [BOX_UR, DASH, DASH, BOX_UL]]),
    (of_char CHR ''4'',
      [[BOX_DR, BOX_DL, BOX_DR, BOX_DL],
       [PIPE, PIPE, PIPE, PIPE],
       [PIPE, BOX_UR, BOX_UL, PIPE],
       [BOX_UR, DASH, BOX_DL, PIPE],
       [SPC, SPC, PIPE, PIPE],
       [SPC, SPC, BOX_UR, BOX_UL]]),
    (of_char CHR ''5'',
      [[BOX_DR, DASH, DASH, BOX_DL],
       [PIPE, BOX_DR, DASH, BOX_UL],
       [PIPE, BOX_UR, DASH, BOX_DL],
       [BOX_UR, DASH, BOX_DL, PIPE],
       [BOX_DR, DASH, BOX_UL, PIPE],
       [BOX_UR, DASH, DASH, BOX_UL]]),
    (of_char CHR ''6'',
      [[BOX_DR, DASH, DASH, BOX_DL],
       [PIPE, BOX_DR, DASH, BOX_UL],
       [PIPE, BOX_UR, DASH, BOX_DL],
       [PIPE, BOX_DR, BOX_DL, PIPE],
       [PIPE, BOX_UR, BOX_UL, PIPE],
       [BOX_UR, DASH, DASH, BOX_UL]]),
    (of_char CHR ''7'',
      [[BOX_DR, DASH, DASH, BOX_DL],
       [BOX_UR, DASH, BOX_DL, PIPE],
       [SPC, SPC, PIPE, PIPE],
       [SPC, SPC, PIPE, PIPE],
       [SPC, SPC, PIPE, PIPE],
       [SPC, SPC, BOX_UR, BOX_UL]]),
    (of_char CHR ''8'',
      [[BOX_DR, DASH, DASH, BOX_DL],
       [PIPE, BOX_DR, BOX_DL, PIPE],
       [PIPE, BOX_UR, BOX_UL, PIPE],
       [PIPE, BOX_DR, BOX_DL, PIPE],
       [PIPE, BOX_UR, BOX_UL, PIPE],
       [BOX_UR, DASH, DASH, BOX_UL]]),
    (of_char CHR ''9'',
      [[BOX_DR, DASH, DASH, BOX_DL],
       [PIPE, BOX_DR, BOX_DL, PIPE],
       [PIPE, BOX_UR, BOX_UL, PIPE],
       [BOX_UR, DASH, BOX_DL, PIPE],
       [BOX_DR, DASH, BOX_UL, PIPE],
       [BOX_UR, DASH, DASH, BOX_UL]]),
    (of_char CHR '' '',
      [[SPC, SPC, SPC, SPC],
       [SPC, SPC, SPC, SPC],
       [SPC, SPC, SPC, SPC],
       [SPC, SPC, SPC, SPC],
       [SPC, SPC, SPC, SPC],
       [SPC, SPC, SPC, SPC]]),
    (of_char CHR '':'',
      [[SPC, SPC, SPC, SPC],
       [SPC, BOX_DR, BOX_DL, SPC],
       [SPC, BOX_UR, BOX_UL, SPC],
       [SPC, BOX_DR, BOX_DL, SPC],
       [SPC, BOX_UR, BOX_UL, SPC],
       [SPC, SPC, SPC, SPC]]),
    (of_char CHR ''/'',
      [[SPC, SPC, BOX_DR, BOX_DL],
       [SPC, BOX_DR, BOX_UL, PIPE],
       [SPC, PIPE, BOX_DR, BOX_UL],
       [BOX_DR, BOX_UL, PIPE, SPC],
       [PIPE, BOX_DR, BOX_UL, SPC],
       [BOX_UR, BOX_UL, SPC, SPC]])]"

definition DigitRepresentation :: "pychar \<rightharpoonup> pystr list" where
  "DigitRepresentation = map_of DigitRepresentation_items"

text \<open>The thirteen keys, as \<open>DigitRepresentationKey\<close> lists them.\<close>

definition DigitRepresentationKey :: "pychar list" where
  "DigitRepresentationKey = ascii ''0123456789 :/''"

text \<open>
  The module-level \<open>assert all(len(square) == 6 and all(len(row) == 4 for row in square)
  for square in DigitRepresentation.values())\<close>: the value of its condition.
\<close>

definition is_6x4 :: "pystr list \<Rightarrow> bool" where
  "is_6x4 square = (length square = 6 \<and> list_all (\<lambda>row. length row = 4) square)"

definition startup_assertion :: bool where
  "startup_assertion = list_all is_6x4 (map snd DigitRepresentation_items)"

section \<open>The time formatter\<close>

text \<open>
  \<open>datetime.now()\<close> reads the operating system's clock; its reading is an input of the
  model. \<open>strftime("%Y %m %d %H %M %S")\<close> writes the six fields in decimal, the year
  padded with zeros to four digits and the others to two, separated by single spaces.
  (Some C libraries do not pad the year; for the years from 1000 on, which are those of
  any clock read today, there is nothing to pad.)
\<close>

record datetime =
  year :: nat
  month :: nat
  day :: nat
  hour :: nat
  minute :: nat
  second :: nat

fun decimal :: "nat \<Rightarrow> pystr" where
  "decimal n = (if n < 10 then [48 + n] else decimal (n div 10) @ [48 + n mod 10])"

declare decimal.simps [simp del]

definition zero_padded :: "nat \<Rightarrow> nat \<Rightarrow> pystr" where
  "zero_padded w n = replicate (w - length (decimal n)) 48 @ decimal n"

definition strftime_now :: "datetime \<Rightarrow> pystr" where
  "strftime_now now =
     zero_padded 4 (year now) @ [SPC] @ zero_padded 2 (month now) @ [SPC] @
     zero_padded 2 (day now) @ [SPC] @ zero_padded 2 (hour now) @ [SPC] @
     zero_padded 2 (minute now) @ [SPC] @ zero_padded 2 (second now)"

text \<open>\<open>s.split(sep)\<close> for a separator of one character: one part more than separators.\<close>

fun py_split :: "pychar \<Rightarrow> pystr \<Rightarrow> pystr list" where
  "py_split sep [] = [[]]"
| "py_split sep (c # cs) =
     (if c = sep then [] # py_split sep cs
      else (let parts = py_split sep cs in (c # hd parts) # tl parts))"

text \<open>\<open>sep.join(parts)\<close>.\<close>

fun py_join :: "pystr \<Rightarrow> pystr list \<Rightarrow> pystr" where
  "py_join sep [] = []"
| "py_join sep [p] = p"
| "py_join sep (p # q # ps) = p @ sep @ py_join sep (q # ps)"

definition current_time :: "datetime \<Rightarrow> bool \<Rightarrow> bool \<Rightarrow> exn + pystr list" where
  "current_time now date hours =
     (let all_parts = py_split SPC (strftime_now now) in
      if date \<and> hours then Inr all_parts
      else if date then Inr (take 3 all_parts)
      else if hours then Inr (drop 3 all_parts)
      else Inl (ValueError (ascii ''At least one of 'date' or 'hours' must be True.'')))"

section \<open>From characters to clock squares\<close>

text \<open>
  The functions below look glyphs up in \<open>ClockDirectionMap\<close>, so they take the dictionary's
  content and return it with their result. A raised exception is the left summand.
\<close>

fun clock_line :: "direction_dict \<Rightarrow> pystr \<Rightarrow> ClockLine \<times> direction_dict" where
  "clock_line d [] = ([], d)"
| "clock_line d (char # line) =
     (let (v, d1) = getitem d char;
          (vs, d2) = clock_line d1 line
      in (v # vs, d2))"

fun clock_lines :: "direction_dict \<Rightarrow> pystr list \<Rightarrow> ClockSquare \<times> direction_dict" where
  "clock_lines d [] = ([], d)"
| "clock_lines d (line # string) =
     (let (l, d1) = clock_line d line;
          (ls, d2) = clock_lines d1 string
      in (l # ls, d2))"

definition clock_digit ::
  "direction_dict \<Rightarrow> pychar \<Rightarrow> (exn + ClockSquare) \<times> direction_dict" where
  "clock_digit d digit =
     (case DigitRepresentation digit of
        None \<Rightarrow> (Inl (KeyError digit), d)
      | Some string \<Rightarrow> (let (square, d1) = clock_lines d string in (Inr square, d1)))"

text \<open>The generator \<open>clock_digit(char) for char in s\<close>, consumed by \<open>tuple\<close>.\<close>

fun clock_digits ::
  "direction_dict \<Rightarrow> pystr \<Rightarrow> (exn + ClockSquare list) \<times> direction_dict" where
  "clock_digits d [] = (Inr [], d)"
| "clock_digits d (char # s) =
     (case clock_digit d char of
        (Inl e, d1) \<Rightarrow> (Inl e, d1)
      | (Inr square, d1) \<Rightarrow>
          (case clock_digits d1 s of
             (Inl e, d2) \<Rightarrow> (Inl e, d2)
           | (Inr squares, d2) \<Rightarrow> (Inr (square # squares), d2)))"

definition full_clock_string ::
  "direction_dict \<Rightarrow> pystr \<Rightarrow> (exn + ClockSquare list) \<times> direction_dict" where
  "full_clock_string d s =
     (if list_all (\<lambda>char. DigitRepresentation char \<noteq> None) s then clock_digits d s
      else (Inl (AssertionError (ascii ''String contains invalid characters.'')), d))"

definition full_clock_time ::
  "direction_dict \<Rightarrow> datetime \<Rightarrow> bool \<Rightarrow> bool \<Rightarrow> (exn + ClockSquare list) \<times> direction_dict"
  where
  "full_clock_time d now date hours =
     (case current_time now date hours of
        Inl e \<Rightarrow> (Inl e, d)
      | Inr current \<Rightarrow>
          (let current1 =
                 (if date
                  then drop 3 current @
                       [if hours then [SPC] else [],
                        py_join (ascii ''/'') (rev (take 3 current))]
                  else current);
               current2 =
                 (if hours
                  then [py_join (ascii '':'') (take 3 current1)] @ drop 3 current1
                  else current1)
           in full_clock_string d (concat current2)))"

text \<open>
  The orientation grid of a pattern as the table of direction pairs gives it, without any
  dictionary state: the value the functions above are compared with.
\<close>

definition pattern_grid :: "pystr list \<Rightarrow> ClockSquare" where
  "pattern_grid string = map (map direction_of) string"

definition glyph_grid :: "pychar \<Rightarrow> ClockSquare" where
  "glyph_grid digit = pattern_grid (the (DigitRepresentation digit))"

section \<open>Startup: command line and log directory\<close>

text \<open>The two assignments \<open>date = "--date" in argv\<close> and \<open>hours = "--hours" in argv or not date\<close>.\<close>

definition main_toggles :: "pystr list \<Rightarrow> bool \<times> bool" where
  "main_toggles argv =
     (let date = (ascii ''--date'' \<in> set argv);
          hours = (ascii ''--hours'' \<in> set argv \<or> \<not> date)
      in (date, hours))"

text \<open>
  The log directory. The environment is an input: \<open>getenv_APPDATA\<close> is what
  \<open>os.getenv("APPDATA")\<close> returns (\<open>None\<close> when the variable is not set) and \<open>home\<close> what
  \<open>os.path.expanduser("~")\<close> returns. \<open>os.path.join\<close> belongs to the platform and is the
  parameter \<open>join\<close>. The \<open>try\<close> block is \<open>main_appdata\<close>; \<open>main_log_dir\<close> adds the handler,
  which takes \<open>EnvironmentError\<close> only, and the join with \<open>"PyClock"\<close>.
\<close>

definition main_appdata :: "pystr option \<Rightarrow> exn + pystr" where
  "main_appdata getenv_APPDATA =
     (case getenv_APPDATA of
        None \<Rightarrow> Inl (EnvironmentError (ascii ''APPDATA environment variable not found.''))
      | Some appdata \<Rightarrow>
          if appdata = [] then
            Inl (EnvironmentError (ascii ''APPDATA environment variable not found.''))
          else Inr appdata)"

definition main_log_dir ::
  "(pystr \<Rightarrow> pystr \<Rightarrow> pystr) \<Rightarrow> pystr option \<Rightarrow> pystr \<Rightarrow> exn + pystr" where
  "main_log_dir join getenv_APPDATA home =
     (case (case main_appdata getenv_APPDATA of
              Inr appdata \<Rightarrow> Inr appdata
            | Inl (EnvironmentError m) \<Rightarrow>
                if home = ascii ''~'' then
                  Inl (EnvironmentError (ascii ''Cannot determine home directory.''))
                else Inr (join home (ascii ''.appdata''))
            | Inl e \<Rightarrow> Inl e) of
        Inl e \<Rightarrow> Inl e
      | Inr appdata \<Rightarrow> Inr (join appdata (ascii ''PyClock'')))"

section \<open>From angles to pixels\<close>

text \<open>
  Python's floats are binary doubles, and \<open>math.sin\<close>, \<open>math.cos\<close> and \<open>math.radians\<close>
  come from the C library of the platform. Every double is a real number, so the values of
  the model are reals, and the arithmetic of the platform is a parameter: \<open>fl\<close> takes the
  exact result of an operation to the double the operation returns, and the three library
  functions are taken as they are. Each operation of the source is one application of
  \<open>fl\<close> in the model, in the order in which Python evaluates the expression; the literal
  \<open>0.8\<close> is the double \<open>fl 0.8\<close>.
\<close>

record float_ops =
  fl :: "real \<Rightarrow> real"
  math_sin :: "real \<Rightarrow> real"
  math_cos :: "real \<Rightarrow> real"
  math_radians :: "real \<Rightarrow> real"

text \<open>
  \<open>round(x)\<close> is the integer nearest to the double \<open>x\<close>, a tie going to the even one, and
  \<open>round(x, n)\<close> is the double nearest to the decimal with \<open>n\<close> places that is nearest to
  \<open>x\<close>, again with ties to even.
\<close>

definition round_half_even :: "real \<Rightarrow> int" where
  "round_half_even s =
     (let f = \<lfloor>s\<rfloor>; r = s - of_int f
      in if r < 1 / 2 then f else if 1 / 2 < r then f + 1 else if even f then f else f + 1)"

definition py_round :: "float_ops \<Rightarrow> real \<Rightarrow> nat \<Rightarrow> real" where
  "py_round A x ndigits = fl A (of_int (round_half_even (x * 10 ^ ndigits)) / 10 ^ ndigits)"

text \<open>
  \<open>hand_end\<close> is the pair \<open>(x_end, y_end)\<close> before it is rounded to ten places, which is
  also what the function logs.
\<close>

definition hand_end :: "float_ops \<Rightarrow> real \<Rightarrow> real \<Rightarrow> real \<times> real" where
  "hand_end A angle clock_size =
     (let rad = math_radians A angle;
          x_end = fl A (fl A (clock_size / 2) +
                    fl A (fl A (fl A (fl A (fl A (clock_size / 2) - 3) * fl A 0.8) * - 1)
                            * math_sin A rad));
          y_end = fl A (fl A (clock_size / 2) +
                    fl A (fl A (fl A (fl A (fl A (clock_size / 2) - 3) * fl A 0.8) * - 1)
                            * math_cos A rad))
      in (x_end, y_end))"

definition unpositionned_angle_calculation ::
  "float_ops \<Rightarrow> real \<Rightarrow> real \<Rightarrow> real \<times> real" where
  "unpositionned_angle_calculation A angle clock_size =
     (let (x_end, y_end) = hand_end A angle clock_size
      in (py_round A x_end 10, py_round A y_end 10))"

definition angle_calculation ::
  "float_ops \<Rightarrow> real \<Rightarrow> real \<Rightarrow> real \<Rightarrow> real \<Rightarrow> real \<times> real" where
  "angle_calculation A angle clock_size x y =
     (let (x_end, y_end) = unpositionned_angle_calculation A angle clock_size
      in (fl A (x + x_end), fl A (y + y_end)))"

text \<open>
  The centre of a clock face whose bounding square has its corner at \<open>(x, y)\<close>: the point
  \<open>(x + clock_size / 2, y + clock_size / 2)\<close> from which \<open>print_to_tk\<close> draws each hand.
\<close>

definition face_centre :: "float_ops \<Rightarrow> real \<Rightarrow> real \<Rightarrow> real \<Rightarrow> real \<times> real" where
  "face_centre A clock_size x y =
     (fl A (x + fl A (clock_size / 2)), fl A (y + fl A (clock_size / 2)))"

text \<open>
  What the theorems below ask of the platform. Rounding to the nearest double moves a number
  of ordinary size by at most one part in \<open>2 ^ 53\<close> (the added one covers the numbers near
  zero), and leaves a half-integer of ordinary size where it is. The library's sine and
  cosine of \<open>math.radians(a)\<close> are within \<open>1 / 10 ^ 15\<close> of the sine and cosine of the angle
  for the four cardinal angles; on the usual platforms the largest of these errors is that
  of the cosine at 270 degrees, less than \<open>2 / 10 ^ 16\<close>.
\<close>

definition rounds_to_nearest :: "float_ops \<Rightarrow> bool" where
  "rounds_to_nearest A =
     ((\<forall>x. \<bar>x\<bar> \<le> 1000000 \<longrightarrow> \<bar>fl A x - x\<bar> \<le> (\<bar>x\<bar> + 1) / 2 ^ 53) \<and>
      (\<forall>m :: int. \<bar>m\<bar> \<le> 1000000 \<longrightarrow> fl A (of_int m / 2) = of_int m / 2))"

definition cardinal_accurate :: "float_ops \<Rightarrow> bool" where
  "cardinal_accurate A =
     (\<forall>a \<in> {0, 90, 180, 270}.
        \<bar>math_sin A (math_radians A a) - sin (a * pi / 180)\<bar> \<le> 1 / 10 ^ 15 \<and>
        \<bar>math_cos A (math_radians A a) - cos (a * pi / 180)\<bar> \<le> 1 / 10 ^ 15)"

text \<open>
  Arithmetic without rounding errors: the arithmetic the source would have over the real
  numbers. It meets both requirements.
\<close>

definition exact_arithmetic :: float_ops where
  "exact_arithmetic =
     \<lparr>fl = (\<lambda>x. x), math_sin = sin, math_cos = cos, math_radians = (\<lambda>a. a * pi / 180)\<rparr>"

text \<open>The expression shared by the two coordinates of \<open>hand_end\<close>, with the sine or cosine as \<open>t\<close>.\<close>

definition hand_coordinate :: "float_ops \<Rightarrow> real \<Rightarrow> real \<Rightarrow> real" where
  "hand_coordinate A clock_size t =
     fl A (fl A (clock_size / 2) +
       fl A (fl A (fl A (fl A (fl A (clock_size / 2) - 3) * fl A 0.8) * - 1) * t))"

section \<open>The redraw tick\<close>

text \<open>
  \<open>print_to_tk\<close> acts on the window, the log and the process state. Its calls to the canvas,
  to \<open>logging\<close> and to \<open>root.after\<close> are recorded as a list of effects, in the order in
  which they happen. A log record is kept with its level and the numbers it formats, not
  with its text.
\<close>

datatype effect =
    CanvasDelete
      \<comment> \<open>\<open>canvas.delete("all")\<close>\<close>
  | CanvasConfig int pystr
      \<comment> \<open>\<open>canvas.config(width=width, bg=bg_color)\<close>\<close>
  | CanvasPack
      \<comment> \<open>\<open>canvas.pack(fill=tk.BOTH, expand=True)\<close>\<close>
  | CreateOval int int int int pystr
      \<comment> \<open>\<open>canvas.create_oval(x0, y0, x1, y1, outline=..., width=2)\<close>\<close>
  | CreateLine real real real real pystr
      \<comment> \<open>\<open>canvas.create_line(x0, y0, x1, y1, fill=color, width=2)\<close>\<close>
  | LogInfo real real real real
      \<comment> \<open>the record of \<open>unpositionned_angle_calculation\<close>: angle, rad, x_end, y_end\<close>
  | LogDebug int int real real
      \<comment> \<open>the record of \<open>print_to_tk\<close>: x, y, x_end, y_end\<close>
  | RootAfter nat
      \<comment> \<open>\<open>root.after(ms, print_to_tk, root, canvas)\<close>\<close>

fun is_log :: "effect \<Rightarrow> bool" where
  "is_log (LogInfo a r x y) = True"
| "is_log (LogDebug x0 y0 x y) = True"
| "is_log other = False"

text \<open>
  The process state that a tick reads and writes: the two module-level toggles, the content
  of \<open>ClockDirectionMap\<close>, and the caches of the two functions decorated with \<open>lru_cache\<close>.
  A cache holds at most 128 entries, the most recently used first: a hit moves its entry to
  the front, a miss calls the function, puts the result in front and drops the entry used
  least recently when there are more than 128.
\<close>

record world =
  g_hours :: bool
  g_date :: bool
  g_directions :: direction_dict
  unpositionned_cache :: "((real \<times> real) \<times> (real \<times> real)) list"
  angle_cache :: "((real \<times> real \<times> real \<times> real) \<times> (real \<times> real)) list"

definition lru_hit :: "'k \<Rightarrow> 'v \<Rightarrow> ('k \<times> 'v) list \<Rightarrow> ('k \<times> 'v) list" where
  "lru_hit k v cache = (k, v) # filter (\<lambda>entry. fst entry \<noteq> k) cache"

definition lru_miss :: "'k \<Rightarrow> 'v \<Rightarrow> ('k \<times> 'v) list \<Rightarrow> ('k \<times> 'v) list" where
  "lru_miss k v cache = take 128 ((k, v) # cache)"

text \<open>The two decorated functions as they are called: value, log records, state afterwards.\<close>

definition unpositionned_angle_calculation_cached ::
  "float_ops \<Rightarrow> world \<Rightarrow> real \<Rightarrow> real \<Rightarrow> (real \<times> real) \<times> effect list \<times> world" where
  "unpositionned_angle_calculation_cached A w angle clock_size =
     (let key = (angle, clock_size) in
      case map_of (unpositionned_cache w) key of
        Some v \<Rightarrow> (v, [], w\<lparr>unpositionned_cache := lru_hit key v (unpositionned_cache w)\<rparr>)
      | None \<Rightarrow>
          (let (x_end, y_end) = hand_end A angle clock_size;
               v = unpositionned_angle_calculation A angle clock_size
           in (v, [LogInfo angle (math_radians A angle) x_end y_end],
               w\<lparr>unpositionned_cache := lru_miss key v (unpositionned_cache w)\<rparr>)))"

definition angle_calculation_cached ::
  "float_ops \<Rightarrow> world \<Rightarrow> real \<Rightarrow> real \<Rightarrow> real \<Rightarrow> real
     \<Rightarrow> (real \<times> real) \<times> effect list \<times> world" where
  "angle_calculation_cached A w angle clock_size x y =
     (let key = (angle, clock_size, x, y) in
      case map_of (angle_cache w) key of
        Some v \<Rightarrow> (v, [], w\<lparr>angle_cache := lru_hit key v (angle_cache w)\<rparr>)
      | None \<Rightarrow>
          (let ((x_end, y_end), logs, w1) =
                 unpositionned_angle_calculation_cached A w angle clock_size;
               v = (fl A (x + x_end), fl A (y + y_end))
           in (v, logs, w1\<lparr>angle_cache := lru_miss key v (angle_cache w1)\<rparr>)))"

text \<open>Strings of the tick: \<open>"#%02x%02x%02x" % color_value\<close> and \<open>s.replace(a, b)\<close> on characters.\<close>

definition hex_digit :: "nat \<Rightarrow> pychar" where
  "hex_digit n = (if n < 10 then 48 + n else 87 + n)"

fun hex :: "nat \<Rightarrow> pystr" where
  "hex n = (if n < 16 then [hex_digit n] else hex (n div 16) @ [hex_digit (n mod 16)])"

declare hex.simps [simp del]

definition hex02 :: "nat \<Rightarrow> pystr" where
  "hex02 n = replicate (2 - length (hex n)) 48 @ hex n"

definition color_string :: "nat \<times> nat \<times> nat \<Rightarrow> pystr" where
  "color_string color_value =
     (case color_value of (r, g, b) \<Rightarrow> ascii ''#'' @ hex02 r @ hex02 g @ hex02 b)"

definition py_replace :: "pychar \<Rightarrow> pychar \<Rightarrow> pystr \<Rightarrow> pystr" where
  "py_replace a b s = map (\<lambda>c. if c = a then b else c) s"

text \<open>\<open>needle in hay\<close> on strings.\<close>

fun py_contains :: "pystr \<Rightarrow> pystr \<Rightarrow> bool" where
  "py_contains needle [] = (needle = [])"
| "py_contains needle (c # cs) = (prefix needle (c # cs) \<or> py_contains needle cs)"

text \<open>
  The four nested iterations, innermost first. \<open>enumerate\<close> is the running index. The numbers
  \<open>clock_size\<close>, \<open>padding\<close>, \<open>x\<close> and \<open>y\<close> are Python integers.
\<close>

fun draw_hands ::
  "float_ops \<Rightarrow> world \<Rightarrow> pystr \<Rightarrow> int \<Rightarrow> int \<Rightarrow> int \<Rightarrow> int list
     \<Rightarrow> effect list \<times> world" where
  "draw_hands A w color clock_size x y [] = ([], w)"
| "draw_hands A w color clock_size x y (angle # angles) =
     (let ((x_end, y_end), logs, w1) =
            angle_calculation_cached A w (of_int angle) (of_int clock_size) (of_int x)
              (of_int y);
          (rest, w2) = draw_hands A w1 color clock_size x y angles
      in (logs @
          [LogDebug x y x_end y_end,
           CreateLine (fl A (of_int x + fl A (of_int clock_size / 2)))
             (fl A (of_int y + fl A (of_int clock_size / 2))) x_end y_end color] @ rest, w2))"

fun draw_line ::
  "float_ops \<Rightarrow> world \<Rightarrow> pystr \<Rightarrow> pystr \<Rightarrow> int \<Rightarrow> int \<Rightarrow> int \<Rightarrow> int \<Rightarrow> int \<Rightarrow> ClockLine
     \<Rightarrow> effect list \<times> world" where
  "draw_line A w color bg_color clock_size padding idx row_idx col_idx [] = ([], w)"
| "draw_line A w color bg_color clock_size padding idx row_idx col_idx ((ori1, ori2) # line) =
     (let x = idx * (4 * (clock_size + padding)) + col_idx * (clock_size + padding) + padding;
          y = row_idx * (clock_size + padding) + padding;
          oval = CreateOval x y (x + clock_size) (y + clock_size)
                   (py_replace (of_char CHR ''1'') (of_char CHR ''2'')
                      (py_replace (of_char CHR ''e'') (of_char CHR ''d'') bg_color));
          (hands, w1) =
            draw_hands A w color clock_size x y
              [orientation_value ori1, orientation_value ori2];
          (rest, w2) =
            draw_line A w1 color bg_color clock_size padding idx row_idx (col_idx + 1) line
      in (oval # hands @ rest, w2))"

fun draw_square ::
  "float_ops \<Rightarrow> world \<Rightarrow> pystr \<Rightarrow> pystr \<Rightarrow> int \<Rightarrow> int \<Rightarrow> int \<Rightarrow> int \<Rightarrow> ClockSquare
     \<Rightarrow> effect list \<times> world" where
  "draw_square A w color bg_color clock_size padding idx row_idx [] = ([], w)"
| "draw_square A w color bg_color clock_size padding idx row_idx (line # square) =
     (let (drawn, w1) = draw_line A w color bg_color clock_size padding idx row_idx 0 line;
          (rest, w2) = draw_square A w1 color bg_color clock_size padding idx (row_idx + 1) square
      in (drawn @ rest, w2))"

fun draw_squares ::
  "float_ops \<Rightarrow> world \<Rightarrow> pystr \<Rightarrow> pystr \<Rightarrow> int \<Rightarrow> int \<Rightarrow> int \<Rightarrow> ClockSquare list
     \<Rightarrow> effect list \<times> world" where
  "draw_squares A w color bg_color clock_size padding idx [] = ([], w)"
| "draw_squares A w color bg_color clock_size padding idx (square # clock_squares) =
     (let (drawn, w1) = draw_square A w color bg_color clock_size padding idx 0 square;
          (rest, w2) = draw_squares A w1 color bg_color clock_size padding (idx + 1) clock_squares
      in (drawn @ rest, w2))"

text \<open>
  The body of the \<open>try\<close> statement. The clock reading and the colour drawn by
  \<open>new_random_color\<close> are inputs. The result is the effects so far, the exception that
  left the body if one did, and the state. The calls into the toolkit are taken to return.
\<close>

definition print_to_tk_try ::
  "float_ops \<Rightarrow> world \<Rightarrow> datetime \<Rightarrow> nat \<times> nat \<times> nat
     \<Rightarrow> effect list \<times> exn option \<times> world" where
  "print_to_tk_try A w now color_value =
     (let color = color_string color_value;
          is_dark = (case color_value of (r, g, b) \<Rightarrow> fl A (real (r + g + b) / 3) < 128);
          bg_color = (if is_dark then ascii ''#eeeeee'' else ascii ''#111111'');
          width = (if g_hours w then 640 else 0) + (if g_date w then 800 else 0)
                    + (if g_hours w \<and> g_date w then 80 else 0);
          cleared = [CanvasDelete, CanvasConfig width bg_color, CanvasPack]
      in case full_clock_time (g_directions w) now (g_date w) (g_hours w) of
           (Inl e, d) \<Rightarrow> (cleared, Some e, w\<lparr>g_directions := d\<rparr>)
         | (Inr clock_squares, d) \<Rightarrow>
             if length clock_squares = 0 then
               (cleared, Some ZeroDivisionError, w\<lparr>g_directions := d\<rparr>)
             else
               (let clock_size =
                      round_half_even
                        (fl A (fl A (of_int width / of_nat (length clock_squares)) / 4));
                    padding = 0;
                    (drawn, w1) =
                      draw_squares A (w\<lparr>g_directions := d\<rparr>) color bg_color clock_size
                        padding 0 clock_squares
                in (cleared @ drawn, None, w1)))"

text \<open>
  \<open>except ValueError as e\<close> takes the instances of \<open>ValueError\<close> and of the classes that
  derive from it, and of none of the other classes named in \<open>exn\<close>. The clause swallows
  exactly the exceptions for which \<open>caught\<close> holds and raises every other one again;
  \<open>print_to_tk_except\<close> is that clause followed by the \<open>root.after\<close> call, which is
  reached only when no exception is on its way out.
\<close>

definition caught :: "exn \<Rightarrow> bool" where
  "caught e =
     (case e of
        ValueError msg \<Rightarrow>
          py_contains (ascii ''At least one of 'date' or 'hours' must be True.'') msg
      | OtherException name derives msg \<Rightarrow>
          derives \<and>
          py_contains (ascii ''At least one of 'date' or 'hours' must be True.'') msg
      | _ \<Rightarrow> False)"

definition print_to_tk_except ::
  "effect list \<times> exn option \<times> world \<Rightarrow> effect list \<times> exn option \<times> world" where
  "print_to_tk_except tried =
     (case tried of
        (effects, None, w) \<Rightarrow> (effects @ [RootAfter 1000], None, w)
      | (effects, Some e, w) \<Rightarrow>
          if caught e then (effects @ [RootAfter 1000], None, w) else (effects, Some e, w))"

definition print_to_tk ::
  "float_ops \<Rightarrow> world \<Rightarrow> datetime \<Rightarrow> nat \<times> nat \<times> nat
     \<Rightarrow> effect list \<times> exn option \<times> world" where
  "print_to_tk A w now color_value =
     print_to_tk_except (print_to_tk_try A w now color_value)"

text \<open>
  A cache is consistent when each entry holds the value its function computes for the
  entry's key.
\<close>

definition caches_ok :: "float_ops \<Rightarrow> world \<Rightarrow> bool" where
  "caches_ok A w =
     ((\<forall>entry\<in>set (unpositionned_cache w).
         snd entry = unpositionned_angle_calculation A (fst (fst entry)) (snd (fst entry))) \<and>
      (\<forall>entry\<in>set (angle_cache w).
         snd entry = (case fst entry of (angle, clock_size, x, y) \<Rightarrow>
                        angle_calculation A angle clock_size x y)))"

section \<open>Properties of the glyph table\<close>

lemma dict_ok_initial: "dict_ok ClockDirectionMap"
  by (simp add: dict_ok_def ClockDirectionMap_def direction_of_def default_factory_def)

lemma dict_okD:
  "dict_ok d \<Longrightarrow> (case d c of Some v \<Rightarrow> v | None \<Rightarrow> default_factory) = direction_of c"
  by (simp add: dict_ok_def)

lemma getitem_value: "dict_ok d \<Longrightarrow> fst (getitem d c) = direction_of c"
  using dict_okD [of d c] by (simp add: getitem_def split: option.splits)

lemma getitem_preserves:
  assumes "dict_ok d"
  shows "dict_ok (snd (getitem d c))"
proof (cases "d c")
  case None
  with dict_okD [OF assms, of c] have dflt: "direction_of c = default_factory"
    by simp
  have "(case (d(c \<mapsto> default_factory)) k of Some v \<Rightarrow> v | None \<Rightarrow> default_factory)
          = direction_of k" for k
    using dict_okD [OF assms, of k] dflt by (cases "k = c") simp_all
  with None show ?thesis
    by (simp add: getitem_def dict_ok_def)
next
  case (Some v)
  with assms show ?thesis
    by (simp add: getitem_def)
qed

lemma foldl_getitem_ok:
  "dict_ok d \<Longrightarrow> dict_ok (foldl (\<lambda>d c. snd (getitem d c)) d cs)"
  by (induction cs arbitrary: d) (simp_all add: getitem_preserves)

lemma after_lookups_ok: "dict_ok (after_lookups cs)"
  unfolding after_lookups_def by (rule foldl_getitem_ok [OF dict_ok_initial])

text \<open>
  C5. The lookup \<open>ClockDirectionMap[char]\<close> has no error result, and whatever has been
  looked up before, every character that is none of the six glyphs of the table yields the
  default pair (150, 150).
\<close>

theorem unknown_glyph_default:
  "char \<notin> {BOX_UR, BOX_DR, BOX_DL, BOX_UL, DASH, PIPE} \<Longrightarrow>
   fst (getitem (after_lookups cs) char) = (DEG_150, DEG_150)"
  by (simp add: getitem_value [OF after_lookups_ok] direction_of_def)

theorem unknown_glyph_default_witness:
  "of_char CHR ''Z'' \<notin> {BOX_UR, BOX_DR, BOX_DL, BOX_UL, DASH, PIPE} \<and>
   fst (getitem (after_lookups [SPC, of_char CHR ''Z'']) (of_char CHR ''Z''))
     = (DEG_150, DEG_150)"
  using unknown_glyph_default [of "of_char CHR ''Z''" "[SPC, of_char CHR ''Z'']"] by simp

section \<open>Properties of the digit patterns\<close>

lemma DigitRepresentation_keys: "dom DigitRepresentation = set DigitRepresentationKey"
  by (simp add: DigitRepresentation_def DigitRepresentation_items_def
      DigitRepresentationKey_def ascii_def dom_map_of_conv_image_fst)

text \<open>
  C4. The startup assertion holds, and each of the thirteen glyphs \<open>0\<close> to \<open>9\<close>, space,
  colon and slash has a pattern of exactly six rows of exactly four characters.
\<close>

theorem digit_patterns_6x4:
  "startup_assertion \<and>
   (\<forall>k\<in>set DigitRepresentationKey. \<exists>square. DigitRepresentation k = Some square \<and>
      length square = 6 \<and> (\<forall>row\<in>set square. length row = 4))"
  by (simp add: startup_assertion_def is_6x4_def DigitRepresentation_def
      DigitRepresentation_items_def DigitRepresentationKey_def ascii_def)

theorem digit_patterns_6x4_witness:
  "of_char CHR ''7'' \<in> set DigitRepresentationKey \<and>
   (\<exists>square. DigitRepresentation (of_char CHR ''7'') = Some square \<and>
      length square = 6 \<and> (\<forall>row\<in>set square. length row = 4))"
proof -
  have k: "of_char CHR ''7'' \<in> set DigitRepresentationKey"
    by (simp add: DigitRepresentationKey_def ascii_def)
  with digit_patterns_6x4 show ?thesis
    by blast
qed

section \<open>Properties of the time formatter\<close>

lemma decimal_digits: "c \<in> set (decimal n) \<Longrightarrow> 48 \<le> c \<and> c \<le> 57"
proof (induction n rule: decimal.induct)
  case (1 n)
  show ?case
  proof (cases "n < 10")
    case True
    with "1.prems" show ?thesis
      by (simp add: decimal.simps [of n])
  next
    case False
    have "n mod 10 < 10"
      by simp
    with False "1.prems" "1.IH" show ?thesis
      by (auto simp: decimal.simps [of n])
  qed
qed

lemma zero_padded_digits: "c \<in> set (zero_padded w n) \<Longrightarrow> 48 \<le> c \<and> c \<le> 57"
  by (auto simp: zero_padded_def dest: decimal_digits)

lemma zero_padded_no_space: "SPC \<notin> set (zero_padded w n)"
  using zero_padded_digits [of SPC w n] by auto

lemma py_split_no_sep: "sep \<notin> set a \<Longrightarrow> py_split sep a = [a]"
  by (induction a) auto

lemma py_split_append:
  "sep \<notin> set a \<Longrightarrow> py_split sep (a @ sep # rest) = a # py_split sep rest"
  by (induction a) auto

lemma split_strftime_now:
  "py_split SPC (strftime_now now) =
     [zero_padded 4 (year now), zero_padded 2 (month now), zero_padded 2 (day now),
      zero_padded 2 (hour now), zero_padded 2 (minute now), zero_padded 2 (second now)]"
  by (simp add: strftime_now_def py_split_append py_split_no_sep zero_padded_no_space)

lemma current_time_hours:
  "current_time now False True =
     Inr [zero_padded 2 (hour now), zero_padded 2 (minute now), zero_padded 2 (second now)]"
  by (simp add: current_time_def split_strftime_now)

text \<open>
  C2, as the code has it. With only the hours toggle set, \<open>current_time\<close> returns exactly
  the three strings hour, minute, second, in that order. With only the date toggle set it
  returns exactly three strings as well, in the order year, month, day.
\<close>

theorem current_time_components:
  "current_time now False True =
     Inr [zero_padded 2 (hour now), zero_padded 2 (minute now), zero_padded 2 (second now)] \<and>
   current_time now True False =
     Inr [zero_padded 4 (year now), zero_padded 2 (month now), zero_padded 2 (day now)]"
  by (simp add: current_time_def split_strftime_now)

text \<open>
  C2, as stated, fails: on 5 March 2024 the date-only call returns the year first and the
  day last, not day, month, year.
\<close>

theorem current_time_date_order_counterexample:
  "current_time \<lparr>year = 2024, month = 3, day = 5, hour = 13, minute = 45, second = 7\<rparr>
       True False
     = Inr [ascii ''2024'', ascii ''03'', ascii ''05''] \<and>
   current_time \<lparr>year = 2024, month = 3, day = 5, hour = 13, minute = 45, second = 7\<rparr>
       True False
     \<noteq> Inr [ascii ''05'', ascii ''03'', ascii ''2024'']"
  by (simp add: current_time_def split_strftime_now zero_padded_def decimal.simps ascii_def)

text \<open>
  C6. \<open>current_time\<close> raises its \<open>ValueError\<close> exactly when both toggles are false, and
  returns a tuple exactly when at least one of them is true.
\<close>

theorem current_time_raises_iff:
  "(current_time now date hours =
      Inl (ValueError (ascii ''At least one of 'date' or 'hours' must be True.'')))
     = (\<not> date \<and> \<not> hours) \<and>
   (\<exists>parts. current_time now date hours = Inr parts) = (date \<or> hours)"
  by (auto simp: current_time_def Let_def)

section \<open>Properties of the clock squares\<close>

lemma clock_line_ok:
  "dict_ok d \<Longrightarrow>
   fst (clock_line d line) = map direction_of line \<and> dict_ok (snd (clock_line d line))"
proof (induction line arbitrary: d)
  case Nil
  then show ?case
    by simp
next
  case (Cons c line)
  obtain v d1 where g: "getitem d c = (v, d1)"
    by (cases "getitem d c")
  with Cons.prems have v: "v = direction_of c" and d1: "dict_ok d1"
    using getitem_value [of d c] getitem_preserves [of d c] by simp_all
  obtain vs d2 where r: "clock_line d1 line = (vs, d2)"
    by (cases "clock_line d1 line")
  with Cons.IH [OF d1] have "vs = map direction_of line" and "dict_ok d2"
    by simp_all
  with g r v show ?case
    by simp
qed

lemma clock_lines_ok:
  "dict_ok d \<Longrightarrow>
   fst (clock_lines d string) = pattern_grid string \<and> dict_ok (snd (clock_lines d string))"
proof (induction string arbitrary: d)
  case Nil
  then show ?case
    by (simp add: pattern_grid_def)
next
  case (Cons line string)
  obtain l d1 where g: "clock_line d line = (l, d1)"
    by (cases "clock_line d line")
  with clock_line_ok [OF Cons.prems, of line]
  have l: "l = map direction_of line" and d1: "dict_ok d1"
    by simp_all
  obtain ls d2 where r: "clock_lines d1 string = (ls, d2)"
    by (cases "clock_lines d1 string")
  with Cons.IH [OF d1] have "ls = pattern_grid string" and "dict_ok d2"
    by simp_all
  with g r l show ?case
    by (simp add: pattern_grid_def)
qed

lemma clock_digit_ok:
  assumes "dict_ok d" and "DigitRepresentation digit \<noteq> None"
  shows "fst (clock_digit d digit) = Inr (glyph_grid digit) \<and>
         dict_ok (snd (clock_digit d digit))"
proof -
  from assms(2) obtain string where s: "DigitRepresentation digit = Some string"
    by auto
  obtain sq d1 where r: "clock_lines d string = (sq, d1)"
    by (cases "clock_lines d string")
  with clock_lines_ok [OF assms(1), of string]
  have "sq = pattern_grid string" and "dict_ok d1"
    by simp_all
  with s r show ?thesis
    by (simp add: clock_digit_def glyph_grid_def)
qed

lemma clock_digits_ok:
  "dict_ok d \<Longrightarrow> list_all (\<lambda>char. DigitRepresentation char \<noteq> None) s \<Longrightarrow>
   fst (clock_digits d s) = Inr (map glyph_grid s) \<and> dict_ok (snd (clock_digits d s))"
proof (induction s arbitrary: d)
  case Nil
  then show ?case
    by simp
next
  case (Cons c s)
  from Cons.prems have c: "DigitRepresentation c \<noteq> None"
    and s: "list_all (\<lambda>char. DigitRepresentation char \<noteq> None) s"
    by simp_all
  obtain r d1 where g: "clock_digit d c = (r, d1)"
    by (cases "clock_digit d c")
  with clock_digit_ok [OF Cons.prems(1) c]
  have r: "r = Inr (glyph_grid c)" and d1: "dict_ok d1"
    by simp_all
  obtain rs d2 where h: "clock_digits d1 s = (rs, d2)"
    by (cases "clock_digits d1 s")
  with Cons.IH [OF d1 s] have "rs = Inr (map glyph_grid s)" and "dict_ok d2"
    by simp_all
  with g h r show ?case
    by simp
qed

lemma in_alphabet_iff:
  "(DigitRepresentation char \<noteq> None) = (char \<in> set DigitRepresentationKey)"
  using DigitRepresentation_keys by (auto simp: dom_def)

lemma full_clock_string_ok:
  assumes "dict_ok d" and "set s \<subseteq> set DigitRepresentationKey"
  shows "fst (full_clock_string d s) = Inr (map glyph_grid s) \<and>
         dict_ok (snd (full_clock_string d s))"
proof -
  from assms(2) have "\<forall>char\<in>set s. DigitRepresentation char \<noteq> None"
    using in_alphabet_iff by blast
  then have a: "list_all (\<lambda>char. DigitRepresentation char \<noteq> None) s"
    unfolding list_all_iff .
  with clock_digits_ok [OF assms(1) a] show ?thesis
    by (simp add: full_clock_string_def)
qed

lemma full_clock_string_invalid:
  assumes "\<not> set s \<subseteq> set DigitRepresentationKey"
  shows "full_clock_string d s =
           (Inl (AssertionError (ascii ''String contains invalid characters.'')), d)"
proof -
  from assms have "\<not> (\<forall>char\<in>set s. DigitRepresentation char \<noteq> None)"
    using in_alphabet_iff by blast
  then have "\<not> list_all (\<lambda>char. DigitRepresentation char \<noteq> None) s"
    unfolding list_all_iff .
  then show ?thesis
    by (simp add: full_clock_string_def)
qed

lemma replicate_6_4:
  "replicate 6 (replicate 4 x) =
     [[x, x, x, x], [x, x, x, x], [x, x, x, x], [x, x, x, x], [x, x, x, x], [x, x, x, x]]"
  by (simp add: numeral_eq_Suc)

lemma glyph_grid_space: "glyph_grid SPC = replicate 6 (replicate 4 (DEG_150, DEG_150))"
  unfolding replicate_6_4
  by (simp add: glyph_grid_def pattern_grid_def DigitRepresentation_def
      DigitRepresentation_items_def direction_of_def)

text \<open>
  C10, as the code has it. A string with a character outside the thirteen keys fails the
  assertion of \<open>full_clock_string\<close> and leaves the dictionary as it was. A string within the
  keys yields one clock square per character, in order, each the grid of its glyph. The
  default pair is reached all the same: the blank cells of the patterns are looked up as
  unknown glyphs, so the square of a space holds the pair (150, 150) in all 24 cells.
\<close>

theorem full_clock_string_alphabet:
  "(\<not> set s \<subseteq> set DigitRepresentationKey \<longrightarrow>
      full_clock_string d s =
        (Inl (AssertionError (ascii ''String contains invalid characters.'')), d)) \<and>
   (dict_ok d \<and> set s \<subseteq> set DigitRepresentationKey \<longrightarrow>
      fst (full_clock_string d s) = Inr (map glyph_grid s) \<and>
      length (map glyph_grid s) = length s) \<and>
   (dict_ok d \<longrightarrow>
      fst (full_clock_string d [SPC]) = Inr [replicate 6 (replicate 4 (DEG_150, DEG_150))])"
proof -
  have invalid: "\<not> set s \<subseteq> set DigitRepresentationKey \<longrightarrow>
      full_clock_string d s =
        (Inl (AssertionError (ascii ''String contains invalid characters.'')), d)"
    using full_clock_string_invalid [of s d] by blast
  have valid: "dict_ok d \<and> set s \<subseteq> set DigitRepresentationKey \<longrightarrow>
      fst (full_clock_string d s) = Inr (map glyph_grid s) \<and>
      length (map glyph_grid s) = length s"
    using full_clock_string_ok [of d s] by simp
  have "set [SPC] \<subseteq> set DigitRepresentationKey"
    by (simp add: DigitRepresentationKey_def ascii_def)
  then have blank: "dict_ok d \<longrightarrow>
      fst (full_clock_string d [SPC]) = Inr [replicate 6 (replicate 4 (DEG_150, DEG_150))]"
    using full_clock_string_ok [of d "[SPC]"] by (simp add: glyph_grid_space)
  from invalid valid blank show ?thesis
    by blast
qed

theorem full_clock_string_alphabet_witness:
  "(\<not> set (ascii ''1Z'') \<subseteq> set DigitRepresentationKey \<and>
      full_clock_string ClockDirectionMap (ascii ''1Z'') =
        (Inl (AssertionError (ascii ''String contains invalid characters.'')),
         ClockDirectionMap)) \<and>
   (dict_ok ClockDirectionMap \<and> set (ascii ''1:'') \<subseteq> set DigitRepresentationKey \<and>
      fst (full_clock_string ClockDirectionMap (ascii ''1:''))
        = Inr (map glyph_grid (ascii ''1:'')) \<and>
      fst (full_clock_string ClockDirectionMap [SPC])
        = Inr [replicate 6 (replicate 4 (DEG_150, DEG_150))])"
proof -
  have bad: "\<not> set (ascii ''1Z'') \<subseteq> set DigitRepresentationKey"
    by (simp add: DigitRepresentationKey_def ascii_def)
  have good: "set (ascii ''1:'') \<subseteq> set DigitRepresentationKey"
    by (simp add: DigitRepresentationKey_def ascii_def)
  from bad good dict_ok_initial
    full_clock_string_alphabet [of "ascii ''1Z''" ClockDirectionMap]
    full_clock_string_alphabet [of "ascii ''1:''" ClockDirectionMap]
  show ?thesis
    by blast
qed

text \<open>
  C10, as stated, fails in its last part: from the dictionary as loaded,
  \<open>full_clock_string(" ")\<close> returns a square whose 24 cells are all the default pair.
\<close>

theorem default_pair_reached_counterexample:
  "fst (full_clock_string ClockDirectionMap [SPC])
     = Inr [replicate 6 (replicate 4 (DEG_150, DEG_150))]"
  unfolding replicate_6_4
  by (simp add: full_clock_string_def clock_digit_def DigitRepresentation_def
      DigitRepresentation_items_def getitem_def ClockDirectionMap_def default_factory_def)

text \<open>The grid of the glyph \<open>1\<close>, written out, as a sample of the published table.\<close>

lemma glyph_grid_one:
  "glyph_grid (of_char CHR ''1'') =
     [[(DEG_270, DEG_180), (DEG_90, DEG_270), (DEG_180, DEG_90), (DEG_150, DEG_150)],
      [(DEG_0, DEG_270), (DEG_180, DEG_90), (DEG_0, DEG_180), (DEG_150, DEG_150)],
      [(DEG_150, DEG_150), (DEG_0, DEG_180), (DEG_0, DEG_180), (DEG_150, DEG_150)],
      [(DEG_150, DEG_150), (DEG_0, DEG_180), (DEG_0, DEG_180), (DEG_150, DEG_150)],
      [(DEG_270, DEG_180), (DEG_90, DEG_0), (DEG_0, DEG_270), (DEG_180, DEG_90)],
      [(DEG_0, DEG_270), (DEG_90, DEG_270), (DEG_90, DEG_270), (DEG_90, DEG_0)]]"
  by (simp add: glyph_grid_def pattern_grid_def DigitRepresentation_def
      DigitRepresentation_items_def direction_of_def)

lemma reading_134507:
  "concat [py_join (ascii '':'') [zero_padded 2 13, zero_padded 2 45, zero_padded 2 7]]
     = ascii ''13:45:07''"
  by (simp add: zero_padded_def decimal.simps ascii_def)

lemma full_clock_time_hours_only:
  "full_clock_time d now False True =
     full_clock_string d
       (concat [py_join (ascii '':'')
          [zero_padded 2 (hour now), zero_padded 2 (minute now), zero_padded 2 (second now)]])"
  by (simp add: full_clock_time_def current_time_hours)

text \<open>
  C3, as the code has it. When the clock reads 13:45:07, on whatever date,
  \<open>full_clock_time(hours=True, date=False)\<close> returns eight clock squares, one for each of
  the glyphs 1, 3, colon, 4, 5, colon, 0, 7 in that order, each equal to the orientation
  grid that the pattern table gives its glyph.
\<close>

theorem full_clock_time_134507:
  assumes "dict_ok d"
  shows "fst (full_clock_time d (now\<lparr>hour := 13, minute := 45, second := 7\<rparr>) False True)
           = Inr (map glyph_grid (ascii ''13:45:07'')) \<and>
         length (map glyph_grid (ascii ''13:45:07'')) = 8"
proof -
  have a: "set (ascii ''13:45:07'') \<subseteq> set DigitRepresentationKey"
    by (simp add: DigitRepresentationKey_def ascii_def)
  have "full_clock_time d (now\<lparr>hour := 13, minute := 45, second := 7\<rparr>) False True
          = full_clock_string d (ascii ''13:45:07'')"
    using reading_134507 by (simp add: full_clock_time_hours_only)
  with full_clock_string_ok [OF assms a] show ?thesis
    by (simp add: ascii_def)
qed

theorem full_clock_time_134507_witness:
  "dict_ok ClockDirectionMap \<and>
   fst (full_clock_time ClockDirectionMap
          (\<lparr>year = 2024, month = 3, day = 5, hour = 0, minute = 0, second = 0\<rparr>
             \<lparr>hour := 13, minute := 45, second := 7\<rparr>) False True)
     = Inr (map glyph_grid (ascii ''13:45:07'')) \<and>
   length (map glyph_grid (ascii ''13:45:07'')) = 8"
  using dict_ok_initial
    full_clock_time_134507 [OF dict_ok_initial,
      of "\<lparr>year = 2024, month = 3, day = 5, hour = 0, minute = 0, second = 0\<rparr>"]
  by blast

text \<open>
  C3, as stated, fails in its count: at 13:45:07 on 5 March 2024, from the dictionary as
  loaded, the call returns normally and its tuple has eight squares, not six.
\<close>

theorem full_clock_time_count_counterexample:
  "\<not> isl (fst (full_clock_time ClockDirectionMap
       \<lparr>year = 2024, month = 3, day = 5, hour = 13, minute = 45, second = 7\<rparr> False True)) \<and>
   length (projr (fst (full_clock_time ClockDirectionMap
       \<lparr>year = 2024, month = 3, day = 5, hour = 13, minute = 45, second = 7\<rparr> False True))) = 8"
proof -
  have a: "set (ascii ''13:45:07'') \<subseteq> set DigitRepresentationKey"
    by (simp add: DigitRepresentationKey_def ascii_def)
  have "full_clock_time ClockDirectionMap
       \<lparr>year = 2024, month = 3, day = 5, hour = 13, minute = 45, second = 7\<rparr> False True
          = full_clock_string ClockDirectionMap (ascii ''13:45:07'')"
    using reading_134507 by (simp add: full_clock_time_hours_only)
  with full_clock_string_ok [OF dict_ok_initial a] show ?thesis
    by (simp add: ascii_def)
qed

section \<open>Properties of the startup code\<close>

text \<open>
  C8. For every argument list the date toggle is set exactly when \<open>--date\<close> is present,
  and the hours toggle exactly when \<open>--hours\<close> is present or \<open>--date\<close> is absent: hours is
  off only when \<open>--date\<close> is given without \<open>--hours\<close>.
\<close>

theorem main_toggles_flags:
  "fst (main_toggles argv) = (ascii ''--date'' \<in> set argv) \<and>
   snd (main_toggles argv) = (ascii ''--hours'' \<in> set argv \<or> ascii ''--date'' \<notin> set argv) \<and>
   (\<not> snd (main_toggles argv)) = (ascii ''--date'' \<in> set argv \<and> ascii ''--hours'' \<notin> set argv)"
  by (auto simp: main_toggles_def Let_def)

theorem main_toggles_flags_witness:
  "main_toggles [ascii ''clock.py'', ascii ''--date''] = (True, False) \<and>
   main_toggles [ascii ''clock.py''] = (False, True) \<and>
   main_toggles [ascii ''clock.py'', ascii ''--hours'', ascii ''--date''] = (True, True)"
  using main_toggles_flags [of "[ascii ''clock.py'', ascii ''--date'']"]
    main_toggles_flags [of "[ascii ''clock.py'']"]
    main_toggles_flags [of "[ascii ''clock.py'', ascii ''--hours'', ascii ''--date'']"]
  by (simp add: prod_eq_iff ascii_def)

text \<open>
  C9. When \<open>APPDATA\<close> is missing or empty, the log directory is \<open>PyClock\<close> under
  \<open>.appdata\<close> under the home directory, unless \<open>expanduser\<close> returned \<open>~\<close> unchanged; then
  startup ends with the \<open>EnvironmentError\<close> raised in the handler.
\<close>

theorem log_dir_fallback:
  assumes "getenv_APPDATA = None \<or> getenv_APPDATA = Some []"
  shows "main_log_dir join getenv_APPDATA home =
           (if home = ascii ''~''
            then Inl (EnvironmentError (ascii ''Cannot determine home directory.''))
            else Inr (join (join home (ascii ''.appdata'')) (ascii ''PyClock'')))"
  using assms by (auto simp: main_log_dir_def main_appdata_def)

theorem log_dir_fallback_witness:
  "main_log_dir (\<lambda>a b. a @ ascii ''/'' @ b) None (ascii ''/home/u'')
     = Inr (ascii ''/home/u/.appdata/PyClock'') \<and>
   main_log_dir (\<lambda>a b. a @ ascii ''/'' @ b) (Some []) (ascii ''~'')
     = Inl (EnvironmentError (ascii ''Cannot determine home directory.''))"
  using log_dir_fallback [of None "\<lambda>a b. a @ ascii ''/'' @ b" "ascii ''/home/u''"]
    log_dir_fallback [of "Some []" "\<lambda>a b. a @ ascii ''/'' @ b" "ascii ''~''"]
  by (simp add: ascii_def)

lemma log_dir_appdata:
  "appdata \<noteq> [] \<Longrightarrow> main_log_dir join (Some appdata) home = Inr (join appdata (ascii ''PyClock''))"
  by (simp add: main_log_dir_def main_appdata_def)

section \<open>Properties of the angle mapping\<close>

text \<open>
  Rounding errors first. On sizes up to 10000 every operation of \<open>hand_end\<close> moves its
  result by less than \<open>2 / 10 ^ 12\<close>, and halving an integer moves nothing.
\<close>

lemma fl_close:
  assumes "rounds_to_nearest A" and "\<bar>x\<bar> \<le> 10000"
  shows "\<bar>fl A x - x\<bar> \<le> 2 / 10 ^ 12"
proof -
  from assms have "\<bar>fl A x - x\<bar> \<le> (\<bar>x\<bar> + 1) / 2 ^ 53"
    by (simp add: rounds_to_nearest_def)
  also from assms(2) have "\<dots> \<le> 10001 / 2 ^ 53"
    by (simp add: divide_right_mono)
  also have "\<dots> \<le> (2 :: real) / 10 ^ 12"
    by simp
  finally show ?thesis .
qed

lemma fl_close_unit:
  assumes "rounds_to_nearest A" and "\<bar>x\<bar> \<le> 1"
  shows "\<bar>fl A x - x\<bar> \<le> 1 / 10 ^ 15"
proof -
  from assms have "\<bar>fl A x - x\<bar> \<le> (\<bar>x\<bar> + 1) / 2 ^ 53"
    by (simp add: rounds_to_nearest_def)
  also from assms(2) have "\<dots> \<le> 2 / 2 ^ 53"
    by (simp add: divide_right_mono)
  also have "\<dots> \<le> (1 :: real) / 10 ^ 15"
    by simp
  finally show ?thesis .
qed

lemma fl_half:
  assumes "rounds_to_nearest A" and "\<bar>m\<bar> \<le> 1000000"
  shows "fl A (of_int m / 2) = of_int m / 2"
  using assms by (simp add: rounds_to_nearest_def)

lemma abs_mult_le:
  fixes a b :: real
  assumes "\<bar>a\<bar> \<le> x" and "\<bar>b\<bar> \<le> y"
  shows "\<bar>a * b\<bar> \<le> x * y"
proof -
  have "\<bar>a * b\<bar> = \<bar>a\<bar> * \<bar>b\<bar>"
    by (rule abs_mult)
  also have "\<dots> \<le> x * y"
    using assms by (intro mult_mono) auto
  finally show ?thesis .
qed

lemma hand_coordinate_close:
  assumes rn: "rounds_to_nearest A" and n: "6 < n" "n \<le> 10000"
    and S: "\<bar>S\<bar> \<le> 1" and t: "\<bar>t - S\<bar> \<le> 1 / 10 ^ 15"
  shows "\<bar>hand_coordinate A (of_int n) t - (of_int n / 2 - 8 / 10 * (of_int n / 2 - 3) * S)\<bar>
           \<le> 2 / 10 ^ 11"
proof -
  define d :: real where "d = 1 / 10 ^ 15"
  define h :: real where "h = of_int n / 2"
  define L :: real where "L = 8 / 10 * (h - 3)"
  define c where "c = fl A (8 / 10)"
  define t3 where "t3 = fl A ((h - 3) * c)"
  define t4 where "t4 = fl A (t3 * - 1)"
  define t5 where "t5 = fl A (t4 * t)"
  have d: "0 < d" "d \<le> 1 / 1000"
    by (simp_all add: d_def)
  have close: "\<bar>fl A x - x\<bar> \<le> 2000 * d" if "\<bar>x\<bar> \<le> 10000" for x
    using fl_close [OF rn that] by (simp add: d_def)
  from t have t': "\<bar>t - S\<bar> \<le> d"
    by (simp add: d_def)
  from n have hb: "7 / 2 \<le> h" "h \<le> 5000"
    by (simp_all add: h_def)
  then have Lb: "0 \<le> L" "L \<le> 3998"
    by (simp_all add: L_def)
  from n have Fh: "fl A (of_int n / 2) = h"
    unfolding h_def by (intro fl_half [OF rn]) simp
  have e1: "h - 3 = of_int (n - 6) / 2"
    by (simp add: h_def)
  have Fh3: "fl A (h - 3) = h - 3"
    unfolding e1 using n by (intro fl_half [OF rn]) simp
  have cb: "\<bar>c - 8 / 10\<bar> \<le> d"
    unfolding c_def d_def by (rule fl_close_unit [OF rn]) simp
  have "\<bar>(h - 3) * (c - 8 / 10)\<bar> \<le> 4997 * d"
    using hb cb by (intro abs_mult_le) auto
  moreover have "(h - 3) * c - L = (h - 3) * (c - 8 / 10)"
    by (simp add: L_def algebra_simps)
  ultimately have p3: "\<bar>(h - 3) * c - L\<bar> \<le> 4997 * d"
    by simp
  with Lb d have "\<bar>(h - 3) * c\<bar> \<le> 10000"
    by linarith
  from close [OF this] have "\<bar>t3 - (h - 3) * c\<bar> \<le> 2000 * d"
    by (simp add: t3_def)
  with p3 have t3L: "\<bar>t3 - L\<bar> \<le> 6997 * d"
    by linarith
  have m: "t3 * - 1 = - t3"
    by simp
  from t3L Lb d have "\<bar>- t3\<bar> \<le> 10000"
    by linarith
  from close [OF this] have "\<bar>t4 - (- t3)\<bar> \<le> 2000 * d"
    by (simp add: t4_def)
  with t3L have t4L: "\<bar>t4 + L\<bar> \<le> 8997 * d"
    by linarith
  from S t' d have tb: "\<bar>t\<bar> \<le> 11 / 10"
    by linarith
  have "\<bar>(t4 + L) * t\<bar> \<le> 8997 * d * (11 / 10)"
    using t4L tb by (rule abs_mult_le)
  moreover have "\<bar>L * (t - S)\<bar> \<le> 3998 * d"
    using Lb t' by (intro abs_mult_le) auto
  moreover have "t4 * t + L * S = (t4 + L) * t - L * (t - S)"
    by (simp add: algebra_simps)
  ultimately have q: "\<bar>t4 * t + L * S\<bar> \<le> 14000 * d"
    using d by linarith
  have LS: "\<bar>L * S\<bar> \<le> 3998 * 1"
    using Lb S by (intro abs_mult_le) auto
  with q d have "\<bar>t4 * t\<bar> \<le> 10000"
    by linarith
  from close [OF this] have "\<bar>t5 - t4 * t\<bar> \<le> 2000 * d"
    by (simp add: t5_def)
  with q have t5L: "\<bar>t5 + L * S\<bar> \<le> 16000 * d"
    by linarith
  from LS t5L hb d have "\<bar>h + t5\<bar> \<le> 10000"
    by linarith
  from close [OF this] t5L have "\<bar>fl A (h + t5) - (h - L * S)\<bar> \<le> 20000 * d"
    by linarith
  moreover have "hand_coordinate A (of_int n) t = fl A (h + t5)"
    by (simp add: hand_coordinate_def Fh Fh3 t5_def t4_def t3_def c_def)
  moreover have "of_int n / 2 - 8 / 10 * (of_int n / 2 - 3) * S = h - L * S"
    by (simp add: h_def L_def)
  ultimately show ?thesis
    by (simp add: d_def)
qed

text \<open>
  \<open>round_half_even\<close> returns an integer at distance at most \<open>1 / 2\<close>, and the only one when
  the distance is less.
\<close>

lemma round_half_even_near:
  assumes "\<bar>s - of_int k\<bar> < 1 / 2"
  shows "round_half_even s = k"
proof (cases "of_int k \<le> s")
  case True
  with assms have "\<lfloor>s\<rfloor> = k"
    by (intro floor_unique) linarith+
  with assms True show ?thesis
    by (simp add: round_half_even_def Let_def)
next
  case False
  with assms have f: "\<lfloor>s\<rfloor> = k - 1"
    by (simp add: floor_eq_iff; linarith)
  from assms False have "1 / 2 < s - of_int (k - 1)"
    by (simp; linarith)
  with f show ?thesis
    by (simp add: round_half_even_def Let_def)
qed

lemma round_half_even_close: "\<bar>of_int (round_half_even s) - s\<bar> \<le> 1 / 2"
proof -
  have "of_int \<lfloor>s\<rfloor> \<le> s" "s < of_int \<lfloor>s\<rfloor> + 1"
    by linarith+
  then show ?thesis
    by (auto simp: round_half_even_def Let_def)
qed

lemma hand_end_coordinates:
  "hand_end A angle clock_size =
     (hand_coordinate A clock_size (math_sin A (math_radians A angle)),
      hand_coordinate A clock_size (math_cos A (math_radians A angle)))"
  by (simp add: hand_end_def hand_coordinate_def Let_def)

lemma angle_calculation_origin:
  "angle_calculation A angle clock_size 0 0 =
     (fl A (py_round A (hand_coordinate A clock_size (math_sin A (math_radians A angle))) 10),
      fl A (py_round A (hand_coordinate A clock_size (math_cos A (math_radians A angle))) 10))"
  by (simp add: angle_calculation_def unpositionned_angle_calculation_def hand_end_coordinates)

lemma face_centre_origin:
  assumes rn: "rounds_to_nearest A" and n: "6 < n" "n \<le> 10000"
  shows "face_centre A (of_int n) 0 0 = (of_int n / 2, of_int n / 2)"
proof -
  from n have "fl A (of_int n / 2) = of_int n / 2"
    by (intro fl_half [OF rn]) simp
  then show ?thesis
    by (simp only: face_centre_def add_0_left)
qed

text \<open>A coordinate whose sine or cosine is 0: it is rounded onto the centre.\<close>

lemma coordinate_straight:
  assumes rn: "rounds_to_nearest A" and n: "6 < n" "n \<le> 10000"
    and t: "\<bar>t - 0\<bar> \<le> 1 / 10 ^ 15"
  shows "fl A (py_round A (hand_coordinate A (of_int n) t) 10) = of_int n / 2"
proof -
  define v where "v = hand_coordinate A (of_int n) t"
  from hand_coordinate_close [OF rn n _ t] have "\<bar>v - of_int n / 2\<bar> \<le> 2 / 10 ^ 11"
    by (simp add: v_def)
  then have "\<bar>(v - of_int n / 2) * 10 ^ 10\<bar> \<le> 2 / 10 ^ 11 * 10 ^ 10"
    by (intro abs_mult_le) auto
  also have "2 / 10 ^ 11 * 10 ^ 10 = (1 / 5 :: real)"
    by simp
  also have "(v - of_int n / 2) * 10 ^ 10 = v * 10 ^ 10 - of_int (n * 5000000000)"
    by (simp add: algebra_simps)
  finally have "\<bar>v * 10 ^ 10 - of_int (n * 5000000000)\<bar> \<le> 1 / 5"
    .
  also have "(1 / 5 :: real) < 1 / 2"
    by simp
  finally have "\<bar>v * 10 ^ 10 - of_int (n * 5000000000)\<bar> < 1 / 2"
    .
  then have "round_half_even (v * 10 ^ 10) = n * 5000000000"
    by (rule round_half_even_near)
  then have "of_int (round_half_even (v * 10 ^ 10)) / 10 ^ 10 = (of_int n :: real) / 2"
    by simp
  moreover from n have Fh: "fl A (of_int n / 2) = of_int n / 2"
    by (intro fl_half [OF rn]) simp
  ultimately show ?thesis
    by (simp only: py_round_def v_def [symmetric])
qed

text \<open>
  A coordinate whose sine or cosine is \<open>S\<close>, 1 or -1: it stays within \<open>2 / 10 ^ 10\<close> of
  the centre moved by the length of the hand, which is at least \<open>4 / 10\<close>.
\<close>

lemma coordinate_moved:
  assumes rn: "rounds_to_nearest A" and n: "6 < n" "n \<le> 10000"
    and S: "\<bar>S\<bar> \<le> 1" and t: "\<bar>t - S\<bar> \<le> 1 / 10 ^ 15"
  shows "\<bar>fl A (py_round A (hand_coordinate A (of_int n) t) 10)
           - (of_int n / 2 - 8 / 10 * (of_int n / 2 - 3) * S)\<bar> \<le> 2 / 10 ^ 10"
proof -
  define d :: real where "d = 1 / 10 ^ 12"
  define v where "v = hand_coordinate A (of_int n) t"
  define g :: real where "g = of_int n / 2 - 8 / 10 * (of_int n / 2 - 3) * S"
  define r :: real where "r = of_int (round_half_even (v * 10 ^ 10)) / 10 ^ 10"
  have d: "0 < d" "d \<le> 1 / 1000"
    by (simp_all add: d_def)
  have close: "\<bar>fl A x - x\<bar> \<le> 2 * d" if "\<bar>x\<bar> \<le> 10000" for x
    using fl_close [OF rn that] by (simp add: d_def)
  from hand_coordinate_close [OF rn n S t] have vg: "\<bar>v - g\<bar> \<le> 20 * d"
    by (simp add: v_def g_def d_def)
  have "\<bar>8 / 10 * (of_int n / 2 - 3) * S\<bar> \<le> 3998 * 1"
    using n S by (intro abs_mult_le) auto
  with n have gb: "\<bar>g\<bar> \<le> 9000"
    unfolding g_def by (simp; linarith)
  have "\<bar>r * 10000000000 - v * 10000000000\<bar> \<le> 1 / 2"
    using round_half_even_close [of "v * 10 ^ 10"] by (simp add: r_def)
  then have "\<bar>r - v\<bar> \<le> 1 / 20000000000"
    by linarith
  then have rv: "\<bar>r - v\<bar> \<le> 50 * d"
    by (simp add: d_def)
  from rv vg gb d have "\<bar>r\<bar> \<le> 10000"
    by linarith
  from close [OF this] have fr: "\<bar>fl A r - r\<bar> \<le> 2 * d"
    .
  from fr rv vg gb d have "\<bar>fl A r\<bar> \<le> 10000"
    by linarith
  from close [OF this] fr rv vg have "\<bar>fl A (fl A r) - g\<bar> \<le> 200 * d"
    by linarith
  then show ?thesis
    by (simp add: py_round_def v_def r_def g_def d_def)
qed

text \<open>The sines and cosines of the four cardinal angles, over the reals.\<close>

lemma trig_0: "sin (0 * pi / 180) = 0" "cos (0 * pi / 180) = 1"
  by simp_all

lemma trig_90: "sin (90 * pi / 180) = 1" "cos (90 * pi / 180) = 0"
  by simp_all

lemma trig_180: "sin (180 * pi / 180) = 0" "cos (180 * pi / 180) = - 1"
  by simp_all

lemma trig_270: "sin (270 * pi / 180) = - 1" "cos (270 * pi / 180) = 0"
proof -
  have r: "270 * pi / 180 = 3 / 2 * pi"
    by simp
  show "sin (270 * pi / 180) = - 1"
    unfolding r by (rule sin_3over2_pi)
  show "cos (270 * pi / 180) = 0"
    unfolding r by (rule cos_3over2_pi)
qed

lemma coordinate_before:
  assumes rn: "rounds_to_nearest A" and n: "6 < n" "n \<le> 10000"
    and t: "\<bar>t - 1\<bar> \<le> 1 / 10 ^ 15"
  shows "fl A (py_round A (hand_coordinate A (of_int n) t) 10) < of_int n / 2"
proof -
  define v where "v = fl A (py_round A (hand_coordinate A (of_int n) t) 10)"
  define h :: real where "h = of_int n / 2"
  define L :: real where "L = 8 / 10 * (h - 3)"
  have "\<bar>v - (h - 8 / 10 * (h - 3) * 1)\<bar> \<le> 2 / 10 ^ 10"
    unfolding v_def h_def by (rule coordinate_moved [OF rn n _ t]) simp
  then have "\<bar>v - (h - L)\<bar> \<le> 1 / 1000"
    by (simp add: L_def)
  moreover from n have "7 / 2 \<le> h"
    by (simp add: h_def)
  then have "4 / 10 \<le> L"
    by (simp add: L_def)
  ultimately have "v < h"
    by linarith
  then show ?thesis
    by (simp only: v_def h_def)
qed

lemma coordinate_after:
  assumes rn: "rounds_to_nearest A" and n: "6 < n" "n \<le> 10000"
    and t: "\<bar>t - (- 1)\<bar> \<le> 1 / 10 ^ 15"
  shows "of_int n / 2 < fl A (py_round A (hand_coordinate A (of_int n) t) 10)"
proof -
  define v where "v = fl A (py_round A (hand_coordinate A (of_int n) t) 10)"
  define h :: real where "h = of_int n / 2"
  define L :: real where "L = 8 / 10 * (h - 3)"
  have "\<bar>v - (h - 8 / 10 * (h - 3) * (- 1))\<bar> \<le> 2 / 10 ^ 10"
    unfolding v_def h_def by (rule coordinate_moved [OF rn n _ t]) simp
  then have "\<bar>v - (h + L)\<bar> \<le> 1 / 1000"
    by (simp add: L_def)
  moreover from n have "7 / 2 \<le> h"
    by (simp add: h_def)
  then have "4 / 10 \<le> L"
    by (simp add: L_def)
  ultimately have "h < v"
    by linarith
  then show ?thesis
    by (simp only: v_def h_def)
qed

lemma cardinal_accurateD:
  assumes "cardinal_accurate A" and "a \<in> {0, 90, 180, 270}"
  shows "\<bar>math_sin A (math_radians A a) - sin (a * pi / 180)\<bar> \<le> 1 / 10 ^ 15"
    and "\<bar>math_cos A (math_radians A a) - cos (a * pi / 180)\<bar> \<le> 1 / 10 ^ 15"
  using assms unfolding cardinal_accurate_def by blast+

text \<open>The arithmetic without rounding errors meets both requirements on the platform.\<close>

lemma exact_rounds: "rounds_to_nearest exact_arithmetic"
  by (simp add: rounds_to_nearest_def exact_arithmetic_def)

lemma exact_accurate: "cardinal_accurate exact_arithmetic"
  by (simp add: cardinal_accurate_def exact_arithmetic_def)

lemma fl_exact: "fl exact_arithmetic x = x"
  by (simp add: exact_arithmetic_def)

lemma exact_round_on_grid:
  assumes "x * 10 ^ 10 = of_int k"
  shows "py_round exact_arithmetic x 10 = x"
proof -
  have "round_half_even (x * 10 ^ 10) = k"
    unfolding assms by (simp add: round_half_even_def)
  then have "py_round exact_arithmetic x 10 = of_int k / 10 ^ 10"
    by (simp only: py_round_def fl_exact)
  also have "\<dots> = x"
    unfolding assms [symmetric] by simp
  finally show ?thesis .
qed

text \<open>
  C1, as the code has it. Take \<open>x = 0\<close>, \<open>y = 0\<close> and an integer clock size from 7 to 10000
  (\<open>print_to_tk\<close> passes 20), on a platform whose doubles are rounded to nearest and whose
  sine and cosine are accurate at the four cardinal angles. Seen from the centre of the
  face, in screen coordinates where \<open>y\<close> grows downward, the tip of the hand is straight up
  at 0 degrees, straight left at 90 degrees, straight down at 180 degrees and straight
  right at 270 degrees: the coordinate that the hand does not move is the double of the
  centre itself, because the error of the computation stays below half a unit of the tenth
  decimal place and \<open>round\<close> removes it.
\<close>

theorem cardinal_directions:
  assumes rn: "rounds_to_nearest A" and ca: "cardinal_accurate A"
    and n: "6 < n" "n \<le> 10000"
  shows "fst (angle_calculation A 0 (of_int n) 0 0) = fst (face_centre A (of_int n) 0 0) \<and>
         snd (angle_calculation A 0 (of_int n) 0 0) < snd (face_centre A (of_int n) 0 0) \<and>
         fst (angle_calculation A 90 (of_int n) 0 0) < fst (face_centre A (of_int n) 0 0) \<and>
         snd (angle_calculation A 90 (of_int n) 0 0) = snd (face_centre A (of_int n) 0 0) \<and>
         fst (angle_calculation A 180 (of_int n) 0 0) = fst (face_centre A (of_int n) 0 0) \<and>
         snd (angle_calculation A 180 (of_int n) 0 0) > snd (face_centre A (of_int n) 0 0) \<and>
         fst (angle_calculation A 270 (of_int n) 0 0) > fst (face_centre A (of_int n) 0 0) \<and>
         snd (angle_calculation A 270 (of_int n) 0 0) = snd (face_centre A (of_int n) 0 0)"
proof -
  note c = face_centre_origin [OF rn n]
  have s0: "\<bar>math_sin A (math_radians A 0) - 0\<bar> \<le> 1 / 10 ^ 15"
    and c0: "\<bar>math_cos A (math_radians A 0) - 1\<bar> \<le> 1 / 10 ^ 15"
    using cardinal_accurateD [OF ca, of 0] by (simp_all only: trig_0 insertI1)
  have s90: "\<bar>math_sin A (math_radians A 90) - 1\<bar> \<le> 1 / 10 ^ 15"
    and c90: "\<bar>math_cos A (math_radians A 90) - 0\<bar> \<le> 1 / 10 ^ 15"
    using cardinal_accurateD [OF ca, of 90] by (simp_all only: trig_90 insertI1 insertI2)
  have s180: "\<bar>math_sin A (math_radians A 180) - 0\<bar> \<le> 1 / 10 ^ 15"
    and c180: "\<bar>math_cos A (math_radians A 180) - (- 1)\<bar> \<le> 1 / 10 ^ 15"
    using cardinal_accurateD [OF ca, of 180] by (simp_all only: trig_180 insertI1 insertI2)
  have s270: "\<bar>math_sin A (math_radians A 270) - (- 1)\<bar> \<le> 1 / 10 ^ 15"
    and c270: "\<bar>math_cos A (math_radians A 270) - 0\<bar> \<le> 1 / 10 ^ 15"
    using cardinal_accurateD [OF ca, of 270] by (simp_all only: trig_270 insertI1 insertI2)
  show ?thesis
    unfolding angle_calculation_origin c fst_conv snd_conv
    using coordinate_straight [OF rn n s0] coordinate_before [OF rn n c0]
      coordinate_before [OF rn n s90] coordinate_straight [OF rn n c90]
      coordinate_straight [OF rn n s180] coordinate_after [OF rn n c180]
      coordinate_after [OF rn n s270] coordinate_straight [OF rn n c270]
    by (intro conjI) assumption+
qed

theorem cardinal_directions_witness:
  "rounds_to_nearest exact_arithmetic \<and> cardinal_accurate exact_arithmetic \<and>
   (6 :: int) < 20 \<and> (20 :: int) \<le> 10000 \<and>
   fst (angle_calculation exact_arithmetic 0 (of_int 20) 0 0)
     = fst (face_centre exact_arithmetic (of_int 20) 0 0) \<and>
   snd (angle_calculation exact_arithmetic 0 (of_int 20) 0 0)
     < snd (face_centre exact_arithmetic (of_int 20) 0 0) \<and>
   fst (angle_calculation exact_arithmetic 90 (of_int 20) 0 0)
     < fst (face_centre exact_arithmetic (of_int 20) 0 0) \<and>
   snd (angle_calculation exact_arithmetic 90 (of_int 20) 0 0)
     = snd (face_centre exact_arithmetic (of_int 20) 0 0) \<and>
   fst (angle_calculation exact_arithmetic 180 (of_int 20) 0 0)
     = fst (face_centre exact_arithmetic (of_int 20) 0 0) \<and>
   snd (angle_calculation exact_arithmetic 180 (of_int 20) 0 0)
     > snd (face_centre exact_arithmetic (of_int 20) 0 0) \<and>
   fst (angle_calculation exact_arithmetic 270 (of_int 20) 0 0)
     > fst (face_centre exact_arithmetic (of_int 20) 0 0) \<and>
   snd (angle_calculation exact_arithmetic 270 (of_int 20) 0 0)
     = snd (face_centre exact_arithmetic (of_int 20) 0 0)"
proof -
  have lo: "(6 :: int) < 20" and hi: "(20 :: int) \<le> 10000"
    by simp_all
  from exact_rounds exact_accurate lo hi
    cardinal_directions [OF exact_rounds exact_accurate lo hi]
  show ?thesis
    by blast
qed

text \<open>
  C1, as stated, fails. At size 100 the hand of 90 degrees ends left of the centre, not
  right of it. At size 4, which is positive, the hand of 0 degrees ends below the centre.
  At size \<open>7 + 1 / 2 ^ 36\<close>, a double, the tip of the hand of 0 degrees is rounded to
  \<open>x = 3.5\<close> and is not straight above the centre, whose \<open>x\<close> is \<open>3.5 + 1 / 2 ^ 37\<close>.
  The three computations are carried out without rounding errors; in doubles they end in
  the same comparisons.
\<close>

theorem cardinal_directions_counterexample:
  "fst (angle_calculation exact_arithmetic 90 100 0 0)
     < fst (face_centre exact_arithmetic 100 0 0) \<and>
   snd (angle_calculation exact_arithmetic 0 4 0 0)
     > snd (face_centre exact_arithmetic 4 0 0) \<and>
   fst (angle_calculation exact_arithmetic 0 (7 + 1 / 2 ^ 36) 0 0)
     \<noteq> fst (face_centre exact_arithmetic (7 + 1 / 2 ^ 36) 0 0)"
proof -
  have a: "hand_coordinate exact_arithmetic 100 (math_sin exact_arithmetic
             (math_radians exact_arithmetic 90)) = 124 / 10"
    by (simp add: hand_coordinate_def exact_arithmetic_def)
  have ra: "py_round exact_arithmetic (124 / 10) 10 = 124 / 10"
    by (rule exact_round_on_grid [of _ 124000000000]) simp
  have ta: "fst (angle_calculation exact_arithmetic 90 100 0 0) = 124 / 10"
    by (simp only: angle_calculation_origin fst_conv a ra fl_exact)
  have ca: "fst (face_centre exact_arithmetic 100 0 0) = 50"
    by (simp add: face_centre_def exact_arithmetic_def)
  have left: "fst (angle_calculation exact_arithmetic 90 100 0 0)
      < fst (face_centre exact_arithmetic 100 0 0)"
    unfolding ta ca by simp
  have b: "hand_coordinate exact_arithmetic 4 (math_cos exact_arithmetic
             (math_radians exact_arithmetic 0)) = 28 / 10"
    by (simp add: hand_coordinate_def exact_arithmetic_def)
  have rb: "py_round exact_arithmetic (28 / 10) 10 = 28 / 10"
    by (rule exact_round_on_grid [of _ 28000000000]) simp
  have tb: "snd (angle_calculation exact_arithmetic 0 4 0 0) = 28 / 10"
    by (simp only: angle_calculation_origin snd_conv b rb fl_exact)
  have cb: "snd (face_centre exact_arithmetic 4 0 0) = 2"
    by (simp add: face_centre_def exact_arithmetic_def)
  have down: "snd (angle_calculation exact_arithmetic 0 4 0 0)
      > snd (face_centre exact_arithmetic 4 0 0)"
    unfolding tb cb by simp
  have c: "hand_coordinate exact_arithmetic (7 + 1 / 2 ^ 36)
             (math_sin exact_arithmetic (math_radians exact_arithmetic 0))
             = 7 / 2 + 1 / 2 ^ 37"
    by (simp add: hand_coordinate_def exact_arithmetic_def)
  have "round_half_even ((7 / 2 + 1 / 2 ^ 37) * 10 ^ 10) = 35000000000"
    by (simp add: round_half_even_def)
  then have rc: "py_round exact_arithmetic (7 / 2 + 1 / 2 ^ 37) 10 = 7 / 2"
    by (simp add: py_round_def fl_exact)
  have tc: "fst (angle_calculation exact_arithmetic 0 (7 + 1 / 2 ^ 36) 0 0) = 7 / 2"
    by (simp only: angle_calculation_origin fst_conv c rc fl_exact)
  have cc: "fst (face_centre exact_arithmetic (7 + 1 / 2 ^ 36) 0 0) = 7 / 2 + 1 / 2 ^ 37"
    by (simp add: face_centre_def exact_arithmetic_def)
  have off: "fst (angle_calculation exact_arithmetic 0 (7 + 1 / 2 ^ 36) 0 0)
      \<noteq> fst (face_centre exact_arithmetic (7 + 1 / 2 ^ 36) 0 0)"
    unfolding tc cc by simp
  from left down off show ?thesis
    by blast
qed

section \<open>Properties of the redraw tick\<close>

lemma full_clock_time_both_off:
  "full_clock_time d now False False =
     (Inl (ValueError (ascii ''At least one of 'date' or 'hours' must be True.'')), d)"
  by (simp add: full_clock_time_def current_time_def)

lemma py_contains_self: "py_contains needle needle"
  by (cases needle) simp_all

lemma caught_toggles_error:
  "caught (ValueError (ascii ''At least one of 'date' or 'hours' must be True.''))"
  by (simp add: caught_def py_contains_self)

lemma caught_iff:
  "caught e =
     (\<exists>msg. py_contains (ascii ''At least one of 'date' or 'hours' must be True.'') msg \<and>
        (e = ValueError msg \<or> (\<exists>name. e = OtherException name True msg)))"
  by (cases e) (auto simp: caught_def)

lemma print_to_tk_try_both_off:
  assumes "\<not> g_hours w" and "\<not> g_date w"
  shows "print_to_tk_try A w now (r, g, b) =
           ([CanvasDelete,
             CanvasConfig 0 (if fl A (real (r + g + b) / 3) < 128 then ascii ''#eeeeee''
                             else ascii ''#111111''),
             CanvasPack],
            Some (ValueError (ascii ''At least one of 'date' or 'hours' must be True.'')), w)"
  using assms by (simp add: print_to_tk_try_def full_clock_time_both_off Let_def)

lemma print_to_tk_both_off:
  assumes "\<not> g_hours w" and "\<not> g_date w"
  shows "print_to_tk A w now (r, g, b) =
           ([CanvasDelete,
             CanvasConfig 0 (if fl A (real (r + g + b) / 3) < 128 then ascii ''#eeeeee''
                             else ascii ''#111111''),
             CanvasPack, RootAfter 1000], None, w)"
  unfolding print_to_tk_def print_to_tk_try_both_off [OF assms]
  by (simp add: print_to_tk_except_def caught_toggles_error)

text \<open>
  C7, as the code has it. On a tick with both toggles off the canvas is cleared,
  \<open>full_clock_time\<close> raises, the \<open>except\<close> clause swallows the \<open>ValueError\<close>, nothing is drawn
  and nothing is logged, the process state is left as it was, and the tick ends with
  \<open>root.after(1000, ...)\<close>. Whatever the body of the \<open>try\<close> raises, the clause swallows an
  exception exactly when it is an instance of \<open>ValueError\<close>, of the class itself or of a
  class that derives from it, and its text contains the message of \<open>current_time\<close>: then
  the tick ends with \<open>root.after\<close> as well. Every other exception is let out again, and
  then \<open>root.after\<close> is not reached.
\<close>

theorem print_to_tk_skips_frame:
  "(\<not> g_hours w \<and> \<not> g_date w \<longrightarrow>
      print_to_tk A w now (r, g, b) =
        ([CanvasDelete,
          CanvasConfig 0 (if fl A (real (r + g + b) / 3) < 128 then ascii ''#eeeeee''
                          else ascii ''#111111''),
          CanvasPack, RootAfter 1000], None, w) \<and>
      \<not> list_ex is_log (fst (print_to_tk A w now (r, g, b)))) \<and>
   (\<not> caught e \<longrightarrow> print_to_tk_except (effects, Some e, w) = (effects, Some e, w)) \<and>
   (caught e \<longrightarrow>
      print_to_tk_except (effects, Some e, w) = (effects @ [RootAfter 1000], None, w)) \<and>
   caught e =
     (\<exists>msg. py_contains (ascii ''At least one of 'date' or 'hours' must be True.'') msg \<and>
        (e = ValueError msg \<or> (\<exists>name. e = OtherException name True msg)))"
proof -
  have skip: "\<not> g_hours w \<and> \<not> g_date w \<longrightarrow>
      print_to_tk A w now (r, g, b) =
        ([CanvasDelete,
          CanvasConfig 0 (if fl A (real (r + g + b) / 3) < 128 then ascii ''#eeeeee''
                          else ascii ''#111111''),
          CanvasPack, RootAfter 1000], None, w) \<and>
      \<not> list_ex is_log (fst (print_to_tk A w now (r, g, b)))"
    by (simp add: print_to_tk_both_off)
  have raise: "\<not> caught e \<longrightarrow> print_to_tk_except (effects, Some e, w) = (effects, Some e, w)"
    by (simp add: print_to_tk_except_def)
  have swallow: "caught e \<longrightarrow>
      print_to_tk_except (effects, Some e, w) = (effects @ [RootAfter 1000], None, w)"
    by (simp add: print_to_tk_except_def)
  from skip raise swallow caught_iff [of e] show ?thesis
    by blast
qed

theorem print_to_tk_skips_frame_witness:
  "\<not> g_hours \<lparr>g_hours = False, g_date = False, g_directions = ClockDirectionMap,
       unpositionned_cache = [], angle_cache = []\<rparr> \<and>
   \<not> g_date \<lparr>g_hours = False, g_date = False, g_directions = ClockDirectionMap,
       unpositionned_cache = [], angle_cache = []\<rparr> \<and>
   print_to_tk exact_arithmetic
     \<lparr>g_hours = False, g_date = False, g_directions = ClockDirectionMap,
       unpositionned_cache = [], angle_cache = []\<rparr>
     \<lparr>year = 2024, month = 3, day = 5, hour = 13, minute = 45, second = 7\<rparr> (200, 200, 200)
     = ([CanvasDelete, CanvasConfig 0 (ascii ''#111111''), CanvasPack, RootAfter 1000], None,
        \<lparr>g_hours = False, g_date = False, g_directions = ClockDirectionMap,
          unpositionned_cache = [], angle_cache = []\<rparr>) \<and>
   \<not> caught (ValueError (ascii ''bad'')) \<and>
   print_to_tk_except ([CanvasDelete], Some (ValueError (ascii ''bad'')),
       \<lparr>g_hours = False, g_date = False, g_directions = ClockDirectionMap,
         unpositionned_cache = [], angle_cache = []\<rparr>)
     = ([CanvasDelete], Some (ValueError (ascii ''bad'')),
        \<lparr>g_hours = False, g_date = False, g_directions = ClockDirectionMap,
          unpositionned_cache = [], angle_cache = []\<rparr>) \<and>
   caught (OtherException (ascii ''UnicodeError'') True
      (ascii ''At least one of 'date' or 'hours' must be True.'')) \<and>
   print_to_tk_except ([CanvasDelete],
       Some (OtherException (ascii ''UnicodeError'') True
          (ascii ''At least one of 'date' or 'hours' must be True.'')),
       \<lparr>g_hours = False, g_date = False, g_directions = ClockDirectionMap,
         unpositionned_cache = [], angle_cache = []\<rparr>)
     = ([CanvasDelete, RootAfter 1000], None,
        \<lparr>g_hours = False, g_date = False, g_directions = ClockDirectionMap,
          unpositionned_cache = [], angle_cache = []\<rparr>)"
proof -
  have nc: "\<not> caught (ValueError (ascii ''bad''))"
    by (simp add: caught_def ascii_def)
  have c: "caught (OtherException (ascii ''UnicodeError'') True
      (ascii ''At least one of 'date' or 'hours' must be True.''))"
    by (simp add: caught_def py_contains_self)
  have dark: "\<not> fl exact_arithmetic (real (200 + 200 + 200) / 3) < 128"
    by (simp add: exact_arithmetic_def)
  from nc c dark
    print_to_tk_skips_frame [of
      "\<lparr>g_hours = False, g_date = False, g_directions = ClockDirectionMap,
         unpositionned_cache = [], angle_cache = []\<rparr>"
      exact_arithmetic
      "\<lparr>year = 2024, month = 3, day = 5, hour = 13, minute = 45, second = 7\<rparr>"
      200 200 200 "ValueError (ascii ''bad'')" "[CanvasDelete]"]
    print_to_tk_skips_frame [of
      "\<lparr>g_hours = False, g_date = False, g_directions = ClockDirectionMap,
         unpositionned_cache = [], angle_cache = []\<rparr>"
      exact_arithmetic
      "\<lparr>year = 2024, month = 3, day = 5, hour = 13, minute = 45, second = 7\<rparr>"
      200 200 200
      "OtherException (ascii ''UnicodeError'') True
         (ascii ''At least one of 'date' or 'hours' must be True.'')" "[CanvasDelete]"]
  show ?thesis
    by simp
qed

text \<open>
  C7, as stated, fails in one part: on a tick with both toggles off no log record is
  written. With the colour (0, 0, 0) the effects of the tick are the three calls that clear
  the canvas and the call of \<open>root.after\<close>; the mean of the colour is the double 0 on every
  platform, and so it is in the arithmetic without rounding errors.
\<close>

theorem print_to_tk_no_log_counterexample:
  "fst (print_to_tk exact_arithmetic
     \<lparr>g_hours = False, g_date = False, g_directions = ClockDirectionMap,
       unpositionned_cache = [], angle_cache = []\<rparr>
     \<lparr>year = 2024, month = 3, day = 5, hour = 13, minute = 45, second = 7\<rparr> (0, 0, 0))
     = [CanvasDelete, CanvasConfig 0 (ascii ''#eeeeee''), CanvasPack, RootAfter 1000] \<and>
   \<not> list_ex is_log (fst (print_to_tk exact_arithmetic
     \<lparr>g_hours = False, g_date = False, g_directions = ClockDirectionMap,
       unpositionned_cache = [], angle_cache = []\<rparr>
     \<lparr>year = 2024, month = 3, day = 5, hour = 13, minute = 45, second = 7\<rparr> (0, 0, 0)))"
  by (simp add: print_to_tk_both_off exact_arithmetic_def)

text \<open>A cached call returns what the function computes, and keeps the caches consistent.\<close>

lemma set_lru_hit: "set (lru_hit k v cache) \<subseteq> insert (k, v) (set cache)"
  by (auto simp: lru_hit_def)

lemma set_lru_miss: "set (lru_miss k v cache) \<subseteq> insert (k, v) (set cache)"
  by (auto simp: lru_miss_def dest: in_set_takeD)

lemma unpositionned_cached_value:
  assumes "caches_ok A w"
  shows "fst (unpositionned_angle_calculation_cached A w angle clock_size)
           = unpositionned_angle_calculation A angle clock_size \<and>
         caches_ok A (snd (snd (unpositionned_angle_calculation_cached A w angle clock_size)))"
proof (cases "map_of (unpositionned_cache w) (angle, clock_size)")
  case None
  obtain x_end y_end where h: "hand_end A angle clock_size = (x_end, y_end)"
    by (cases "hand_end A angle clock_size")
  have "caches_ok A (w\<lparr>unpositionned_cache :=
          lru_miss (angle, clock_size) (unpositionned_angle_calculation A angle clock_size)
            (unpositionned_cache w)\<rparr>)"
    using assms set_lru_miss [of "(angle, clock_size)"
        "unpositionned_angle_calculation A angle clock_size" "unpositionned_cache w"]
    by (auto simp: caches_ok_def)
  with None h show ?thesis
    by (simp add: unpositionned_angle_calculation_cached_def Let_def)
next
  case (Some v)
  then have "((angle, clock_size), v) \<in> set (unpositionned_cache w)"
    by (rule map_of_SomeD)
  with assms have v: "v = unpositionned_angle_calculation A angle clock_size"
    by (auto simp: caches_ok_def)
  have "caches_ok A (w\<lparr>unpositionned_cache :=
          lru_hit (angle, clock_size) v (unpositionned_cache w)\<rparr>)"
    using assms v set_lru_hit [of "(angle, clock_size)" v "unpositionned_cache w"]
    by (auto simp: caches_ok_def)
  with Some v show ?thesis
    by (simp add: unpositionned_angle_calculation_cached_def Let_def)
qed

lemma angle_cached_value:
  assumes "caches_ok A w"
  shows "fst (angle_calculation_cached A w angle clock_size x y)
           = angle_calculation A angle clock_size x y \<and>
         caches_ok A (snd (snd (angle_calculation_cached A w angle clock_size x y)))"
proof (cases "map_of (angle_cache w) (angle, clock_size, x, y)")
  case None
  obtain v logs w1 where u:
    "unpositionned_angle_calculation_cached A w angle clock_size = (v, logs, w1)"
    by (cases "unpositionned_angle_calculation_cached A w angle clock_size")
  with unpositionned_cached_value [OF assms, of angle clock_size]
  have v: "v = unpositionned_angle_calculation A angle clock_size" and w1: "caches_ok A w1"
    by simp_all
  obtain x_end y_end where xy: "v = (x_end, y_end)"
    by (cases v)
  from v xy have "unpositionned_angle_calculation A angle clock_size = (x_end, y_end)"
    by simp
  then have a: "angle_calculation A angle clock_size x y = (fl A (x + x_end), fl A (y + y_end))"
    by (simp add: angle_calculation_def)
  have "caches_ok A (w1\<lparr>angle_cache :=
          lru_miss (angle, clock_size, x, y) (fl A (x + x_end), fl A (y + y_end)) (angle_cache w1)\<rparr>)"
    using w1 a set_lru_miss [of "(angle, clock_size, x, y)" "(fl A (x + x_end), fl A (y + y_end))"
        "angle_cache w1"]
    by (auto simp: caches_ok_def)
  with None u xy a show ?thesis
    by (simp add: angle_calculation_cached_def Let_def)
next
  case (Some v)
  then have "((angle, clock_size, x, y), v) \<in> set (angle_cache w)"
    by (rule map_of_SomeD)
  with assms have v: "v = angle_calculation A angle clock_size x y"
    by (auto simp: caches_ok_def)
  have "caches_ok A (w\<lparr>angle_cache := lru_hit (angle, clock_size, x, y) v (angle_cache w)\<rparr>)"
    using assms v set_lru_hit [of "(angle, clock_size, x, y)" v "angle_cache w"]
    by (auto simp: caches_ok_def)
  with Some v show ?thesis
    by (simp add: angle_calculation_cached_def Let_def)
qed

text \<open>
  With a toggle on, the text handed to \<open>full_clock_string\<close> lies within the keys, so the
  tick draws, writes log records and ends with \<open>root.after\<close>.
\<close>

lemma digit_is_key: "48 \<le> c \<Longrightarrow> c \<le> 57 \<Longrightarrow> c \<in> set DigitRepresentationKey"
  by (simp add: DigitRepresentationKey_def ascii_def) arith

lemma zero_padded_keys: "set (zero_padded w n) \<subseteq> set DigitRepresentationKey"
  using zero_padded_digits digit_is_key by blast

lemma separators_are_keys:
  "of_char CHR '':'' \<in> set DigitRepresentationKey"
  "of_char CHR ''/'' \<in> set DigitRepresentationKey"
  "SPC \<in> set DigitRepresentationKey"
  by (simp_all add: DigitRepresentationKey_def ascii_def)

lemma text_both:
  "full_clock_time d now True True =
     full_clock_string d
       (zero_padded 2 (hour now) @ 58 # zero_padded 2 (minute now) @ 58 #
        zero_padded 2 (second now) @ 32 # zero_padded 2 (day now) @ 47 #
        zero_padded 2 (month now) @ 47 # zero_padded 4 (year now))"
  by (simp add: full_clock_time_def current_time_def split_strftime_now ascii_def)

lemma text_date:
  "full_clock_time d now True False =
     full_clock_string d
       (zero_padded 2 (day now) @ 47 # zero_padded 2 (month now) @ 47 #
        zero_padded 4 (year now))"
  by (simp add: full_clock_time_def current_time_def split_strftime_now ascii_def)

lemma text_hours:
  "full_clock_time d now False True =
     full_clock_string d
       (zero_padded 2 (hour now) @ 58 # zero_padded 2 (minute now) @ 58 #
        zero_padded 2 (second now))"
  by (simp add: full_clock_time_def current_time_def split_strftime_now ascii_def)

lemma clock_textI:
  assumes "full_clock_time d now date hours = full_clock_string d s"
    and "s \<noteq> []" and "set s \<subseteq> set DigitRepresentationKey"
  shows "\<exists>s. s \<noteq> [] \<and> set s \<subseteq> set DigitRepresentationKey \<and>
       full_clock_time d now date hours = full_clock_string d s"
  using assms by blast

lemma clock_text:
  assumes "date \<or> hours"
  shows "\<exists>s. s \<noteq> [] \<and> set s \<subseteq> set DigitRepresentationKey \<and>
       full_clock_time d now date hours = full_clock_string d s"
proof -
  have k: "58 \<in> set DigitRepresentationKey" "47 \<in> set DigitRepresentationKey"
    "32 \<in> set DigitRepresentationKey"
    by (simp_all add: DigitRepresentationKey_def ascii_def)
  consider "date" "hours" | "date" "\<not> hours" | "\<not> date" "hours"
    using assms by blast
  then show ?thesis
  proof cases
    case 1
    let ?s = "zero_padded 2 (hour now) @ 58 # zero_padded 2 (minute now) @ 58 #
        zero_padded 2 (second now) @ 32 # zero_padded 2 (day now) @ 47 #
        zero_padded 2 (month now) @ 47 # zero_padded 4 (year now)"
    from 1 have "full_clock_time d now date hours = full_clock_string d ?s"
      using text_both [of d now] by simp
    moreover have "?s \<noteq> []"
      by simp
    moreover have "set ?s \<subseteq> set DigitRepresentationKey"
      using k zero_padded_keys by simp
    ultimately show ?thesis
      by (rule clock_textI)
  next
    case 2
    let ?s = "zero_padded 2 (day now) @ 47 # zero_padded 2 (month now) @ 47 #
        zero_padded 4 (year now)"
    from 2 have "full_clock_time d now date hours = full_clock_string d ?s"
      using text_date [of d now] by simp
    moreover have "?s \<noteq> []"
      by simp
    moreover have "set ?s \<subseteq> set DigitRepresentationKey"
      using k zero_padded_keys by simp
    ultimately show ?thesis
      by (rule clock_textI)
  next
    case 3
    let ?s = "zero_padded 2 (hour now) @ 58 # zero_padded 2 (minute now) @ 58 #
        zero_padded 2 (second now)"
    from 3 have "full_clock_time d now date hours = full_clock_string d ?s"
      using text_hours [of d now] by simp
    moreover have "?s \<noteq> []"
      by simp
    moreover have "set ?s \<subseteq> set DigitRepresentationKey"
      using k zero_padded_keys by simp
    ultimately show ?thesis
      by (rule clock_textI)
  qed
qed

lemma draw_hands_logs:
  "list_ex is_log (fst (draw_hands A w color clock_size x y (angle # angles)))"
  by (simp add: split_beta Let_def)

lemma draw_line_logs:
  "list_ex is_log
     (fst (draw_line A w color bg_color clock_size padding idx row_idx col_idx (cell # line)))"
  by (cases cell) (simp add: split_beta Let_def del: draw_hands.simps add: draw_hands_logs)

lemma draw_square_logs:
  "list_ex is_log
     (fst (draw_square A w color bg_color clock_size padding idx row_idx
             ((cell # line) # square)))"
  by (simp add: split_beta Let_def del: draw_line.simps add: draw_line_logs)

lemma draw_squares_logs:
  "list_ex is_log
     (fst (draw_squares A w color bg_color clock_size padding idx
             (((cell # line) # square) # clock_squares)))"
  by (simp add: split_beta Let_def del: draw_square.simps add: draw_square_logs)

lemma glyph_grid_shape:
  assumes "c \<in> set DigitRepresentationKey"
  shows "\<exists>cell line square. glyph_grid c = (cell # line) # square"
  using assms
  by (auto simp: DigitRepresentationKey_def ascii_def glyph_grid_def pattern_grid_def
      DigitRepresentation_def DigitRepresentation_items_def)

lemma print_to_tk_draws:
  assumes on: "g_hours w \<or> g_date w" and ok: "dict_ok (g_directions w)"
  shows "\<exists>cleared drawn w1.
           print_to_tk A w now color_value = (cleared @ drawn @ [RootAfter 1000], None, w1) \<and>
           list_ex is_log drawn"
proof -
  from on have "g_date w \<or> g_hours w"
    by blast
  from clock_text [OF this, of "g_directions w" now] obtain s where
    s: "s \<noteq> []" "set s \<subseteq> set DigitRepresentationKey"
    and t: "full_clock_time (g_directions w) now (g_date w) (g_hours w)
              = full_clock_string (g_directions w) s"
    by blast
  from s(1) obtain c s' where cs: "s = c # s'"
    by (cases s) simp_all
  with s(2) have "c \<in> set DigitRepresentationKey"
    by simp
  from glyph_grid_shape [OF this] obtain cell line square where
    g: "glyph_grid c = (cell # line) # square"
    by blast
  obtain r d where f: "full_clock_string (g_directions w) s = (r, d)"
    by (cases "full_clock_string (g_directions w) s")
  with full_clock_string_ok [OF ok s(2)] cs g
  have r: "r = Inr (((cell # line) # square) # map glyph_grid s')"
    by simp
  define clock_squares where "clock_squares = ((cell # line) # square) # map glyph_grid s'"
  define color where "color = color_string color_value"
  define bg_color where "bg_color =
    (if (case color_value of (r, g, b) \<Rightarrow> fl A (real (r + g + b) / 3) < 128)
     then ascii ''#eeeeee'' else ascii ''#111111'')"
  define width :: int where "width =
    (if g_hours w then 640 else 0) + (if g_date w then 800 else 0)
      + (if g_hours w \<and> g_date w then 80 else 0)"
  define clock_size where
    "clock_size = round_half_even (fl A (fl A (of_int width / of_nat (length clock_squares)) / 4))"
  obtain drawn w1 where
    dr: "draw_squares A (w\<lparr>g_directions := d\<rparr>) color bg_color clock_size 0 0 clock_squares
           = (drawn, w1)"
    by (cases "draw_squares A (w\<lparr>g_directions := d\<rparr>) color bg_color clock_size 0 0
                 clock_squares")
  have logs: "list_ex is_log drawn"
    using draw_squares_logs [of A "w\<lparr>g_directions := d\<rparr>" color bg_color clock_size 0 0
        cell line square "map glyph_grid s'"] dr
    by (simp add: clock_squares_def)
  have "print_to_tk_try A w now color_value =
          ([CanvasDelete, CanvasConfig width bg_color, CanvasPack] @ drawn, None, w1)"
    using t f r dr
    by (simp add: print_to_tk_try_def Let_def clock_squares_def color_def bg_color_def
        width_def clock_size_def del: draw_squares.simps)
  then have "print_to_tk A w now color_value =
          ([CanvasDelete, CanvasConfig width bg_color, CanvasPack] @ drawn @ [RootAfter 1000],
           None, w1)"
    by (simp add: print_to_tk_def print_to_tk_except_def)
  with logs show ?thesis
    by blast
qed

end
